theory Spec2Isabelle
  imports Complex_Main "HOL-Library.AList"
begin

section \<open>Python values used by \<open>mmeval/metrics/lvis_detection.py\<close>\<close>

text \<open>
  A prediction is any Python object; \<open>add\<close> only asks whether it is a dict. The payload
  of a dict (bboxes, scores, labels, masks) is carried along and never inspected by the
  wrapper, so nested lists, ints and strings are enough to write such records down.
\<close>

datatype pyobj =
    PyDict "(string \<times> pyobj) list"
  | PyList "pyobj list"
  | PyInt int
  | PyStr string
  | PyNone

text \<open>\<open>isinstance(prediction, dict)\<close>\<close>

fun is_dict :: "pyobj \<Rightarrow> bool" where
  "is_dict (PyDict kvs) = True"
| "is_dict other = False"

text \<open>
  A Python float is a finite number, negative zero, an infinity or not-a-number. The
  values that the library hands over are binary doubles, embedded in the reals
  (\<open>Finite 0\<close> is \<open>+0.0\<close>). The result of a rounding to decimals is kept as that decimal;
  the float that the program holds is the double nearest to it. The two operations whose
  value depends on binary rounding, the product of two doubles and the mean of an array,
  are parameters of the model (see \<open>lib\<close> below).
\<close>

datatype pyfloat = Finite real | NegZero | PosInf | NegInf | NaN

text \<open>The comparison \<open>x > -1\<close> of line 279; every comparison with NaN is false.\<close>

fun gt_minus_one :: "pyfloat \<Rightarrow> bool" where
  "gt_minus_one (Finite x) = (x > - 1)"
| "gt_minus_one NegZero = True"
| "gt_minus_one PosInf = True"
| "gt_minus_one NegInf = False"
| "gt_minus_one NaN = False"

text \<open>The exceptions that the wrapper raises, catches or lets through.\<close>

datatype error =
    AssertionError
  | IndexError
  | KeyError
  | RuntimeError
  | OtherError string

text \<open>The values stored in \<open>eval_results\<close>: a float, a list of strings, or a list of
  (category name, percentage) pairs. The \<open>OrderedDict\<close> is an association list in
  insertion order; \<open>d[k] = v\<close> is \<open>AList.update k v d\<close>, which replaces the value of an
  existing key in place and appends a new key at the end.\<close>

datatype result_value =
    Float pyfloat
  | Strs "string list"
  | Pairs "(string \<times> string) list"

type_synonym eval_results = "(string \<times> result_value) list"

section \<open>Strings and paths\<close>

definition digit_char :: "nat \<Rightarrow> char" where
  "digit_char d = ''0123456789'' ! d"

text \<open>\<open>str(n)\<close> for an integer, as the f-strings of lines 233 to 236 format it.\<close>

fun str_nat :: "nat \<Rightarrow> string" where
  "str_nat n = (if n < 10 then [digit_char n] else str_nat (n div 10) @ [digit_char (n mod 10)])"

declare str_nat.simps [simp del]

definition str_int :: "int \<Rightarrow> string" where
  "str_int i = (if i < 0 then CHR ''-'' # str_nat (nat (- i)) else str_nat (nat i))"

text \<open>\<open>posixpath.join(a, b)\<close> for two components.\<close>

definition osp_join :: "string \<Rightarrow> string \<Rightarrow> string" where
  "osp_join a b =
     (if b \<noteq> [] \<and> hd b = CHR ''/'' then b
      else if a = [] \<or> last a = CHR ''/'' then a @ b
      else a @ ''/'' @ b)"

text \<open>\<open>posixpath.dirname(p)\<close>: the head up to and including the last slash, with its
  trailing slashes stripped unless it consists of slashes only.\<close>

fun rstrip_slash :: "string \<Rightarrow> string" where
  "rstrip_slash s = rev (dropWhile (\<lambda>c. c = CHR ''/'') (rev s))"

definition osp_dirname :: "string \<Rightarrow> string" where
  "osp_dirname p =
     (let head = rev (dropWhile (\<lambda>c. c \<noteq> CHR ''/'') (rev p))
      in if head \<noteq> [] \<and> head \<noteq> replicate (length head) (CHR ''/'')
         then rstrip_slash head else head)"

section \<open>The world outside the object: files, temporary directories, the logger\<close>

datatype log_entry = Info string | Warning string

record world =
  files :: "string \<rightharpoonup> string"
  tmp_dirs :: "string list"
  tmp_count :: nat
  logs :: "log_entry list"

definition log_info :: "world \<Rightarrow> string \<Rightarrow> world" where
  "log_info w msg = w\<lparr>logs := logs w @ [Info msg]\<rparr>"

definition log_warning :: "world \<Rightarrow> string \<Rightarrow> world" where
  "log_warning w msg = w\<lparr>logs := logs w @ [Warning msg]\<rparr>"

text \<open>\<open>tempfile.TemporaryDirectory()\<close>: a directory with a name not handed out before
  (the \<open>n\<close>-th one created) comes into existence; its name is returned.\<close>

definition tmp_name :: "nat \<Rightarrow> string" where
  "tmp_name n = ''/tmp/tmp'' @ str_nat n"

definition TemporaryDirectory :: "world \<Rightarrow> string \<times> world" where
  "TemporaryDirectory w =
     (tmp_name (tmp_count w),
      w\<lparr>tmp_dirs := tmp_name (tmp_count w) # tmp_dirs w, tmp_count := Suc (tmp_count w)\<rparr>)"

text \<open>\<open>tmp_dir.cleanup()\<close>: the directory and every file below it are removed. The
  finalizer of the object does the same when the object is released and the directory has
  not been cleaned up before.\<close>

definition cleanup :: "string \<Rightarrow> world \<Rightarrow> world" where
  "cleanup d w =
     w\<lparr>tmp_dirs := removeAll d (tmp_dirs w),
       files := (\<lambda>p. if take (length d + 1) p = d @ ''/'' then None else files w p)\<rparr>"

text \<open>
  A return from \<open>compute_metric\<close> ends the frame in which the \<open>TemporaryDirectory\<close>
  object, if there is one, is held by the local variable \<open>tmp_dir\<close> alone: the object is
  released and its finalizer runs. An exception keeps the frame, and the directory, alive
  while it propagates.
\<close>

definition release :: "string option \<Rightarrow> world \<Rightarrow> world" where
  "release tmp_dir w = (case tmp_dir of None \<Rightarrow> w | Some name \<Rightarrow> cleanup name w)"

text \<open>\<open>dump(content, path)\<close> for each file that \<open>results2json\<close> writes, in order.\<close>

fun dump_all :: "(string \<times> string) list \<Rightarrow> (string \<rightharpoonup> string) \<Rightarrow> (string \<rightharpoonup> string)" where
  "dump_all [] fs = fs"
| "dump_all ((path, content) # rest) fs = dump_all rest (fs(path \<mapsto> content))"

section \<open>The metric object\<close>

text \<open>The attributes of an \<open>LVISDetection\<close> instance that the file reads or writes.
  \<open>'g\<close> is the type of the LVIS ground-truth handle (\<open>self._lvis_api\<close>).\<close>

record 'g lvis_detection =
  results :: "pyobj list"
  lvis_api :: 'g
  cat_ids :: "int list"
  img_ids :: "int list"
  metrics :: "string list"
  metric_items :: "string list option"
  classwise :: bool
  proposal_nums :: int
  format_only :: bool
  outfile_prefix :: "string option"

text \<open>The precision array of the LVIS evaluator,
  \<open>[num_thrs, num_recalls, num_cats, num_area_rngs]\<close>: its shape and its entries.\<close>

record ndarray4 =
  shape :: "nat \<times> nat \<times> nat \<times> nat"
  entry :: "nat \<Rightarrow> nat \<Rightarrow> nat \<Rightarrow> nat \<Rightarrow> pyfloat"

text \<open>What the wrapper reads from an \<open>LVISEval\<close> object after \<open>evaluate()\<close>,
  \<open>accumulate()\<close> and \<open>summarize()\<close>: the items of \<open>get_results()\<close> in their order,
  \<open>eval['precision']\<close>, and the text that \<open>print_results()\<close> prints.\<close>

record lvis_eval =
  get_results :: "(string \<times> pyfloat) list"
  eval_precision :: ndarray4
  print_results :: string

text \<open>
  The code that \<open>lvis_detection.py\<close> calls and that is not in the file: the LVIS API
  (\<open>'g\<close> its ground-truth object, \<open>'d\<close> its \<open>LVISResults\<close> object), the inherited
  \<open>results2json\<close>, and \<open>np.mean\<close>.

  \<^item> \<open>LVIS\<close>: the constructor \<open>LVIS(local_path)\<close>.
  \<^item> \<open>results2json\<close> is given the object and the results and answers with one triple
    (key of \<open>result_files\<close>, suffix of the file name after \<open>outfile_prefix\<close>, dumped
    content) per entry of the \<open>result_files\<close> it returns.
  \<^item> \<open>LVISResults\<close> is given the ground truth and the content found at the result path.
  \<^item> \<open>LVISEval\<close> is given ground truth, detections, \<open>iou_type\<close>, \<open>params.imgIds\<close>
    and \<open>params.max_dets\<close> (\<open>None\<close> when the wrapper leaves the library's default).
  \<^item> \<open>np_mean\<close> is \<open>np.mean\<close> on a non-empty array.
\<close>

record ('g, 'd) lib =
  LVIS :: "string \<Rightarrow> error + 'g"
  get_cat_ids :: "'g \<Rightarrow> int list"
  get_img_ids :: "'g \<Rightarrow> int list"
  load_cats :: "'g \<Rightarrow> int list \<Rightarrow> error + (string \<times> string) list list"
  results2json :: "'g lvis_detection \<Rightarrow> pyobj list \<Rightarrow> error + (string \<times> string \<times> string) list"
  LVISResults :: "'g \<Rightarrow> string option \<Rightarrow> error + 'd"
  LVISEval :: "'g \<Rightarrow> 'd \<Rightarrow> string \<Rightarrow> int list \<Rightarrow> int option \<Rightarrow> error + lvis_eval"
  np_mean :: "pyfloat list \<Rightarrow> pyfloat"

section \<open>Float arithmetic, rounding and formatting\<close>

text \<open>
  A Python float is a binary64 number: \<open>Finite x\<close> stands for the double of value \<open>x\<close>.
  The functions below are total on all reals and are the operations of the runtime on
  those that are doubles.
\<close>

text \<open>Rounding a real to the nearest integer, ties to the even one.\<close>

definition round_half_even :: "real \<Rightarrow> int" where
  "round_half_even x =
     (let f = \<lfloor>x\<rfloor>; d = x - of_int f
      in if d < 1 / 2 then f else if 1 / 2 < d then f + 1 else if even f then f else f + 1)"

text \<open>\<open>scale b e x\<close> is \<open>x * b ** e\<close> for an integer exponent.\<close>

definition scale :: "real \<Rightarrow> int \<Rightarrow> real \<Rightarrow> real" where
  "scale b e x = (if 0 \<le> e then x * b ^ nat e else x / b ^ nat (- e))"

text \<open>
  The exponent \<open>e\<close> for which \<open>x / 2 ** e\<close> lies in \<open>[2 ** 52, 2 ** 53)\<close>, found by
  halving or doubling \<open>x > 0\<close>, in at most as many steps as given. The doubles with this
  exponent are the multiples of \<open>2 ** e\<close>.
\<close>

fun binade :: "nat \<Rightarrow> real \<Rightarrow> int \<Rightarrow> int" where
  "binade 0 x e = e"
| "binade (Suc n) x e =
     (if 2 ^ 53 \<le> x then binade n (x / 2) (e + 1)
      else if x < 2 ^ 52 then binade n (x * 2) (e - 1)
      else e)"

text \<open>
  The double nearest to a real, ties to the even significand (the rounding of IEEE 754
  that every float operation of the runtime applies to its exact result): the spacing of
  the doubles around \<open>x\<close> is \<open>2 ** e\<close>, at least \<open>2 ** -1074\<close> (the subnormal
  numbers); a result of magnitude \<open>2 ** 1024\<close> is an infinity, and a result zero keeps
  the sign. The 2200 steps reach every exponent for which the result is neither zero nor
  infinite.
\<close>

definition to_double :: "real \<Rightarrow> pyfloat" where
  "to_double x =
     (if x = 0 then Finite 0
      else let e = max (- 1074) (binade 2200 \<bar>x\<bar> 0);
               k = round_half_even (scale 2 (- e) x)
           in if k = 0 then (if x < 0 then NegZero else Finite 0)
              else if 2 ^ 1024 \<le> \<bar>scale 2 e (of_int k)\<bar>
                   then (if x < 0 then NegInf else PosInf)
              else Finite (scale 2 e (of_int k)))"

text \<open>The product \<open>a * b\<close> of two floats: a NaN operand or zero times infinity gives
  NaN; otherwise the sign is the product of the signs, and the product of two finite
  non-zero doubles is the double nearest to the exact product.\<close>

fun negative :: "pyfloat \<Rightarrow> bool" where
  "negative (Finite x) = (x < 0)"
| "negative NegZero = True"
| "negative NegInf = True"
| "negative PosInf = False"
| "negative NaN = False"

fun is_zero :: "pyfloat \<Rightarrow> bool" where
  "is_zero (Finite x) = (x = 0)"
| "is_zero NegZero = True"
| "is_zero other = False"

fun is_inf :: "pyfloat \<Rightarrow> bool" where
  "is_inf PosInf = True"
| "is_inf NegInf = True"
| "is_inf other = False"

definition py_mul :: "pyfloat \<Rightarrow> pyfloat \<Rightarrow> pyfloat" where
  "py_mul a b =
     (if a = NaN \<or> b = NaN then NaN
      else if (is_inf a \<and> is_zero b) \<or> (is_zero a \<and> is_inf b) then NaN
      else if is_inf a \<or> is_inf b then (if negative a = negative b then PosInf else NegInf)
      else if is_zero a \<or> is_zero b then (if negative a = negative b then Finite 0 else NegZero)
      else (case (a, b) of (Finite x, Finite y) \<Rightarrow> to_double (x * y) | other \<Rightarrow> NaN))"

text \<open>
  \<open>round(x, n)\<close> of a Python float, and equally \<open>float(f'{x:.nf}')\<close>: the exact value
  of \<open>x\<close> is rounded to \<open>n\<close> decimals, ties to even, and the result is the double
  nearest to that decimal; a negative value that rounds to zero gives \<open>-0.0\<close>;
  infinities and NaN stay.
\<close>

fun py_round :: "nat \<Rightarrow> pyfloat \<Rightarrow> pyfloat" where
  "py_round n (Finite x) =
     (let k = round_half_even (x * 10 ^ n)
      in if k = 0 \<and> x < 0 then NegZero else to_double (of_int k / 10 ^ n))"
| "py_round n other = other"

declare py_round.simps [simp del]

text \<open>
  \<open>round(x, n)\<close> of a numpy float (\<open>np.float64.__round__\<close>), which is
  \<open>np.rint(x * 10**n) / 10**n\<close>: the product is a float product, it is rounded to the
  nearest integer, ties to even, and the quotient is the double nearest to the exact one.
\<close>

definition np_round :: "nat \<Rightarrow> pyfloat \<Rightarrow> pyfloat" where
  "np_round n x =
     (case py_mul x (Finite (10 ^ n)) of
        Finite z \<Rightarrow>
          (let k = round_half_even z
           in if k = 0 \<and> z < 0 then NegZero else to_double (of_int k / 10 ^ n))
      | other \<Rightarrow> other)"

text \<open>
  \<open>str(x)\<close> of a float, which is what an f-string with no format puts for it: the digits
  of the shortest decimal that reads back as \<open>x\<close>, the nearest to \<open>x\<close> among these.

  \<open>decade\<close> finds the decimal exponent \<open>p\<close> with \<open>10 ** p \<le> x < 10 ** (p + 1)\<close>,
  \<open>round_sig d x\<close> is \<open>x\<close> rounded to \<open>d\<close> significant digits, and \<open>shortest\<close> tries
  1, 2, ... digits up to 17, which always read back.
\<close>

fun decade :: "nat \<Rightarrow> real \<Rightarrow> int \<Rightarrow> int" where
  "decade 0 x p = p"
| "decade (Suc n) x p =
     (if 10 \<le> x then decade n (x / 10) (p + 1)
      else if x < 1 then decade n (x * 10) (p - 1)
      else p)"

definition round_sig :: "nat \<Rightarrow> real \<Rightarrow> real" where
  "round_sig d x =
     (let q = decade 400 \<bar>x\<bar> 0 - int d + 1
      in scale 10 q (of_int (round_half_even (scale 10 (- q) x))))"

fun shortest :: "nat \<Rightarrow> nat \<Rightarrow> real \<Rightarrow> real" where
  "shortest 0 d x = round_sig d x"
| "shortest (Suc n) d x =
     (if to_double (round_sig d x) = Finite x then round_sig d x else shortest n (Suc d) x)"

text \<open>The digits after the point of a fraction \<open>0 \<le> f < 1\<close> with a finite decimal
  expansion.\<close>

fun frac_str :: "nat \<Rightarrow> real \<Rightarrow> string" where
  "frac_str 0 f = []"
| "frac_str (Suc n) f =
     (if f = 0 then []
      else digit_char (nat \<lfloor>f * 10\<rfloor>) # frac_str n (f * 10 - of_int \<lfloor>f * 10\<rfloor>))"

text \<open>A decimal \<open>y > 0\<close> in positional notation, with at least one digit after the
  point, and in exponent notation, with an exponent of at least two digits.\<close>

definition decimal_str :: "real \<Rightarrow> string" where
  "decimal_str y =
     str_nat (nat \<lfloor>y\<rfloor>) @ ''.'' @
     (if y = of_int \<lfloor>y\<rfloor> then ''0'' else frac_str 30 (y - of_int \<lfloor>y\<rfloor>))"

definition exp_str :: "real \<Rightarrow> int \<Rightarrow> string" where
  "exp_str y p =
     (let m = scale 10 (- p) y
      in [digit_char (nat \<lfloor>m\<rfloor>)] @
         (if m = of_int \<lfloor>m\<rfloor> then [] else ''.'' @ frac_str 17 (m - of_int \<lfloor>m\<rfloor>)) @
         ''e'' @ (if p < 0 then ''-'' else ''+'') @
         (if \<bar>p\<bar> < 10 then ''0'' else []) @ str_nat (nat \<bar>p\<bar>))"

text \<open>Positional notation is used from \<open>0.0001\<close> up to, not including, \<open>1e16\<close>.\<close>

definition repr_pos :: "real \<Rightarrow> string" where
  "repr_pos x =
     (let y = shortest 16 1 x; p = decade 400 y 0
      in if - 4 \<le> p \<and> p < 16 then decimal_str y else exp_str y p)"

fun py_str :: "pyfloat \<Rightarrow> string" where
  "py_str (Finite r) =
     (if r = 0 then ''0.0'' else if r < 0 then ''-'' @ repr_pos (- r) else repr_pos r)"
| "py_str NegZero = ''-0.0''"
| "py_str PosInf = ''inf''"
| "py_str NegInf = ''-inf''"
| "py_str NaN = ''nan''"

declare py_str.simps [simp del]

text \<open>Line 260, \<open>f'{round(val * 100, 2)}'\<close> with \<open>val\<close> a Python float, and line 285,
  the same expression with \<open>ap\<close> the numpy float of \<open>np.mean\<close> (or the float NaN).\<close>

definition percent :: "pyfloat \<Rightarrow> string" where
  "percent val = py_str (py_round 2 (py_mul val (Finite 100)))"

definition np_percent :: "pyfloat \<Rightarrow> string" where
  "np_percent ap = py_str (np_round 2 (py_mul ap (Finite 100)))"

section \<open>\<open>__init__\<close>, \<open>add\<close>, \<open>add_predictions\<close>\<close>

text \<open>The arguments of \<open>__init__\<close>. A metric given as one string is the list of that
  string; an omitted \<open>proposal_nums\<close> is \<open>None\<close>.\<close>

record init_args =
  ann_file :: string
  metric_arg :: "string list"
  classwise_arg :: bool
  proposal_nums_arg :: "int option"
  metric_items_arg :: "string list option"
  format_only_arg :: bool
  outfile_prefix_arg :: "string option"

text \<open>
  Modelled from the spec: the inherited constructor \<open>COCODetection.__init__\<close>, which
  \<open>__init__\<close> calls at lines 92 to 100 and which is not among the sources. It stores the
  recognised options (target metrics, classwise reporting, metric-item allow-list,
  format-only mode, output-file prefix) and starts with no results, no category ids and no
  image ids. It refuses a metric that is not one of the valid metrics \<open>bbox\<close>, \<open>segm\<close>
  and \<open>proposal\<close> (\<open>KeyError\<close>) and format-only mode without an output-file prefix
  (\<open>AssertionError\<close>), since the files of a transient location would be gone when the
  call returns.
\<close>

definition super_init_refuses :: "init_args \<Rightarrow> error option" where
  "super_init_refuses args =
     (if \<not> list_all (\<lambda>m. m \<in> set [''bbox'', ''segm'', ''proposal'']) (metric_arg args)
      then Some KeyError
      else if format_only_arg args \<and> outfile_prefix_arg args = None then Some AssertionError
      else None)"

text \<open>
  \<open>__init__\<close> (lines 76 to 107). \<open>HAS_LVISAPI\<close> is the module flag; an omitted
  \<open>proposal_nums\<close> takes the default 300 of the signature; line 101 stores it after the
  inherited constructor has run.
\<close>

definition init ::
  "('g, 'd) lib \<Rightarrow> bool \<Rightarrow> init_args \<Rightarrow> error + 'g lvis_detection" where
  "init L HAS_LVISAPI args =
     (if \<not> HAS_LVISAPI then Inl RuntimeError
      else
        (case super_init_refuses args of
           Some e \<Rightarrow> Inl e
         | None \<Rightarrow>
             (case LVIS L (ann_file args) of
                Inl e \<Rightarrow> Inl e
              | Inr api \<Rightarrow>
                  Inr \<lparr>results = [], lvis_api = api, cat_ids = [], img_ids = [],
                       metrics = metric_arg args, metric_items = metric_items_arg args,
                       classwise = classwise_arg args,
                       proposal_nums =
                         (case proposal_nums_arg args of None \<Rightarrow> 300 | Some n \<Rightarrow> n),
                       format_only = format_only_arg args,
                       outfile_prefix = outfile_prefix_arg args\<rparr>)))"

text \<open>\<open>add\<close> (lines 149 to 152): the loop stops at the first failing assertion, with the
  predictions before it already appended.\<close>

fun add :: "'g lvis_detection \<Rightarrow> pyobj list \<Rightarrow> 'g lvis_detection \<times> (error + unit)" where
  "add self [] = (self, Inr ())"
| "add self (prediction # predictions) =
     (if \<not> is_dict prediction then (self, Inl AssertionError)
      else add (self\<lparr>results := results self @ [prediction]\<rparr>) predictions)"

definition add_predictions ::
  "'g lvis_detection \<Rightarrow> pyobj list \<Rightarrow> 'g lvis_detection \<times> (error + unit)" where
  "add_predictions self predictions = add self predictions"

section \<open>\<open>compute_metric\<close>\<close>

text \<open>The \<open>result_files\<close> dict returned by \<open>results2json(results, outfile_prefix)\<close>
  and the files it dumps, for the triples that the inherited method answers with.\<close>

definition result_files_of :: "string \<Rightarrow> (string \<times> string \<times> string) list \<Rightarrow> (string \<times> string) list" where
  "result_files_of prefix triples =
     map (\<lambda>(key, suffix, content). (key, prefix @ suffix)) triples"

definition dumps_of :: "string \<Rightarrow> (string \<times> string \<times> string) list \<Rightarrow> (string \<times> string) list" where
  "dumps_of prefix triples =
     map (\<lambda>(key, suffix, content). (prefix @ suffix, content)) triples"

text \<open>Lines 232 to 237 and 250 to 253: the items reported when \<open>metric_items\<close> is
  \<open>None\<close>.\<close>

definition proposal_items :: "int \<Rightarrow> string list" where
  "proposal_items n =
     [''AR@'' @ str_int n, ''ARs@'' @ str_int n, ''ARm@'' @ str_int n, ''ARl@'' @ str_int n]"

definition default_items :: "string list" where
  "default_items =
     [''AP'', ''AP50'', ''AP75'', ''APs'', ''APm'', ''APl'', ''APr'', ''APc'', ''APf'']"

text \<open>Lines 238 to 241: the loop over \<open>lvis_eval.get_results().items()\<close> of the proposal
  branch; \<open>float(f'{float(v):.3f}')\<close> is the value rounded to three decimals.\<close>

fun record_proposal ::
  "('g, 'd) lib \<Rightarrow> string list \<Rightarrow> (string \<times> pyfloat) list \<Rightarrow> eval_results \<Rightarrow> eval_results" where
  "record_proposal L items [] eval_results = eval_results"
| "record_proposal L items ((k, v) # rest) eval_results =
     (if k \<in> set items
      then record_proposal L items rest (AList.update k (Float (py_round 3 v)) eval_results)
      else record_proposal L items rest eval_results)"

text \<open>Lines 255 to 261: the loop over \<open>lvis_results.items()\<close> of the bbox/segm branch;
  it returns \<open>results_list\<close> and the updated \<open>eval_results\<close>.\<close>

fun record_items ::
  "('g, 'd) lib \<Rightarrow> string \<Rightarrow> string list \<Rightarrow> (string \<times> pyfloat) list \<Rightarrow>
   string list \<Rightarrow> eval_results \<Rightarrow> string list \<times> eval_results" where
  "record_items L metric items [] results_list eval_results = (results_list, eval_results)"
| "record_items L metric items ((metric_item, v) # rest) results_list eval_results =
     (if metric_item \<in> set items
      then record_items L metric items rest
             (results_list @ [percent v])
             (AList.update (metric @ ''_'' @ metric_item) (Float v) eval_results)
      else record_items L metric items rest results_list eval_results)"

text \<open>Lines 278 and 279: \<open>precisions[:, :, idx, 0]\<close>, then the entries greater than
  \<open>-1\<close>, in row-major order. Indexing the third or fourth axis out of range raises.\<close>

definition precision_slice :: "ndarray4 \<Rightarrow> nat \<Rightarrow> error + pyfloat list" where
  "precision_slice precisions idx =
     (case shape precisions of (T, R, K, A) \<Rightarrow>
        if idx < K \<and> 0 < A
        then Inr (concat (map (\<lambda>t. map (\<lambda>r. entry precisions t r idx 0) [0..<R]) [0..<T]))
        else Inl IndexError)"

definition valid_samples :: "pyfloat list \<Rightarrow> pyfloat list" where
  "valid_samples precision = filter gt_minus_one precision"

text \<open>Lines 280 to 283.\<close>

definition category_ap :: "('g, 'd) lib \<Rightarrow> pyfloat list \<Rightarrow> pyfloat" where
  "category_ap L precision = (if length precision \<noteq> 0 then np_mean L precision else NaN)"

text \<open>Lines 272 to 286: the loop over \<open>enumerate(self.cat_ids)\<close>; it returns
  \<open>results_per_category\<close> and the updated \<open>eval_results\<close>.\<close>

fun per_category ::
  "('g, 'd) lib \<Rightarrow> 'g \<Rightarrow> string \<Rightarrow> ndarray4 \<Rightarrow> (nat \<times> int) list \<Rightarrow>
   (string \<times> string) list \<Rightarrow> eval_results \<Rightarrow> error + (string \<times> string) list \<times> eval_results" where
  "per_category L api metric precisions [] results_per_category eval_results =
     Inr (results_per_category, eval_results)"
| "per_category L api metric precisions ((idx, catId) # rest) results_per_category eval_results =
     (case load_cats L api [catId] of
        Inl e \<Rightarrow> Inl e
      | Inr [] \<Rightarrow> Inl IndexError
      | Inr (nm # others) \<Rightarrow>
          (case precision_slice precisions idx of
             Inl e \<Rightarrow> Inl e
           | Inr precision \<Rightarrow>
               let ap = category_ap L (valid_samples precision) in
               (case map_of nm ''name'' of
                  None \<Rightarrow> Inl KeyError
                | Some name \<Rightarrow>
                    per_category L api metric precisions rest
                      (results_per_category @ [(name, np_percent ap)])
                      (AList.update (metric @ ''_'' @ name @ ''_precision'') (Float ap)
                         eval_results))))"

text \<open>Lines 226 to 241: the proposal branch, after the evaluator has run.\<close>

definition report_proposal ::
  "('g, 'd) lib \<Rightarrow> 'g lvis_detection \<Rightarrow> lvis_eval \<Rightarrow> eval_results \<Rightarrow> eval_results" where
  "report_proposal L self lvis_eval eval_results =
     (let items =
            (case metric_items self of
               None \<Rightarrow> proposal_items (proposal_nums self)
             | Some given \<Rightarrow> given)
      in record_proposal L items (get_results lvis_eval) eval_results)"

text \<open>Lines 247 to 289: the bbox/segm branch, after the evaluator has run.\<close>

definition report_detection ::
  "('g, 'd) lib \<Rightarrow> 'g lvis_detection \<Rightarrow> string \<Rightarrow> lvis_eval \<Rightarrow> eval_results \<Rightarrow>
   error + eval_results" where
  "report_detection L self metric lvis_eval eval_results =
     (let lvis_results = get_results lvis_eval;
          items = (case metric_items self of None \<Rightarrow> default_items | Some given \<Rightarrow> given);
          (results_list, eval_results1) =
            record_items L metric items lvis_results [] eval_results;
          eval_results2 = AList.update (metric @ ''_result'') (Strs results_list) eval_results1
      in if classwise self then
           let precisions = eval_precision lvis_eval in
           if length (cat_ids self) \<noteq> fst (snd (snd (shape precisions))) then Inl AssertionError
           else
             (case per_category L (lvis_api self) metric precisions
                     (enumerate 0 (cat_ids self)) [] eval_results2 of
                Inl e \<Rightarrow> Inl e
              | Inr (results_per_category, eval_results3) \<Rightarrow>
                  Inr (AList.update (metric @ ''_classwise_result'') (Pairs results_per_category)
                         eval_results3))
         else Inr eval_results2)"

text \<open>Lines 222 to 289: one pass of the loop body once \<open>lvis_dt\<close> exists. The evaluator
  gets \<open>params.max_dets = self.proposal_nums\<close> for the proposal metric only.\<close>

definition evaluate_metric ::
  "('g, 'd) lib \<Rightarrow> 'g lvis_detection \<Rightarrow> string \<Rightarrow> 'd \<Rightarrow> eval_results \<Rightarrow>
   error + eval_results \<times> string" where
  "evaluate_metric L self metric lvis_dt eval_results =
     (let lvis_gt = lvis_api self;
          iou_type = (if metric = ''proposal'' then ''bbox'' else metric)
      in if metric = ''proposal'' then
           (case LVISEval L lvis_gt lvis_dt iou_type (img_ids self) (Some (proposal_nums self)) of
              Inl e \<Rightarrow> Inl e
            | Inr lvis_eval \<Rightarrow>
                Inr (report_proposal L self lvis_eval eval_results, print_results lvis_eval))
         else
           (case LVISEval L lvis_gt lvis_dt iou_type (img_ids self) None of
              Inl e \<Rightarrow> Inl e
            | Inr lvis_eval \<Rightarrow>
                (case report_detection L self metric lvis_eval eval_results of
                   Inl e \<Rightarrow> Inl e
                 | Inr eval_results' \<Rightarrow> Inr (eval_results', print_results lvis_eval))))"

text \<open>Lines 212 to 294: the loop over \<open>self.metrics\<close>. An \<open>IndexError\<close> of
  \<open>LVISResults\<close> is caught: a warning is logged and \<open>break\<close> leaves the loop. A missing
  key of \<open>result_files\<close> and every other exception propagate.\<close>

fun metric_loop ::
  "('g, 'd) lib \<Rightarrow> 'g lvis_detection \<Rightarrow> (string \<times> string) list \<Rightarrow> string list \<Rightarrow>
   eval_results \<Rightarrow> world \<Rightarrow> world \<times> (error + eval_results)" where
  "metric_loop L self result_files [] eval_results w = (w, Inr eval_results)"
| "metric_loop L self result_files (metric # rest) eval_results w =
     (let w1 = log_info w (''Evaluating '' @ metric @ ''...'') in
      case map_of result_files metric of
        None \<Rightarrow> (w1, Inl KeyError)
      | Some path \<Rightarrow>
          (case LVISResults L (lvis_api self) (files w1 path) of
             Inl e \<Rightarrow>
               if e = IndexError
               then (log_warning w1 ''The testing results of the whole dataset is empty.'',
                     Inr eval_results)
               else (w1, Inl e)
           | Inr lvis_dt \<Rightarrow>
               (case evaluate_metric L self metric lvis_dt eval_results of
                  Inl e \<Rightarrow> (w1, Inl e)
                | Inr (eval_results', printed) \<Rightarrow>
                    metric_loop L self result_files rest eval_results'
                      (log_info w1 (CHR 0x0A # printed)))))"

text \<open>Lines 195 to 199: the lazy initialisation of \<open>cat_ids\<close> and \<open>img_ids\<close>.\<close>

definition lazy_init :: "('g, 'd) lib \<Rightarrow> 'g lvis_detection \<Rightarrow> 'g lvis_detection" where
  "lazy_init L self =
     (let self1 = (if length (cat_ids self) = 0
                   then self\<lparr>cat_ids := get_cat_ids L (lvis_api self)\<rparr> else self)
      in if length (img_ids self1) = 0
         then self1\<lparr>img_ids := get_img_ids L (lvis_api self1)\<rparr> else self1)"

text \<open>\<open>compute_metric\<close> (lines 188 to 297). It returns the object, the world and either
  the exception that left the method or the \<open>eval_results\<close> it returned. The return of
  line 208 does not pass \<open>tmp_dir.cleanup()\<close> (line 296); at both returns the local
  \<open>tmp_dir\<close> is released.\<close>

definition compute_metric ::
  "('g, 'd) lib \<Rightarrow> 'g lvis_detection \<Rightarrow> world \<Rightarrow> pyobj list \<Rightarrow>
   'g lvis_detection \<times> world \<times> (error + eval_results)" where
  "compute_metric L self w results_arg =
     (let (tmp_dir, prefix, w1) =
            (case outfile_prefix self of
               None \<Rightarrow>
                 (let (name, w') = TemporaryDirectory w
                  in (Some name, osp_join name ''results'', w'))
             | Some given \<Rightarrow> (None, given, w));
          self1 = lazy_init L self
      in case results2json L self1 results_arg of
           Inl e \<Rightarrow> (self1, w1, Inl e)
         | Inr triples \<Rightarrow>
             let result_files = result_files_of prefix triples;
                 w2 = w1\<lparr>files := dump_all (dumps_of prefix triples) (files w1)\<rparr>
             in if format_only self1 then
                  (self1,
                   release tmp_dir
                     (log_info w2 (''results are saved in '' @ osp_dirname prefix)),
                   Inr [])
                else
                  (case metric_loop L self1 result_files (metrics self1) [] w2 of
                     (w3, Inl e) \<Rightarrow> (self1, w3, Inl e)
                   | (w3, Inr eval_results) \<Rightarrow>
                       (self1,
                        release tmp_dir
                          (case tmp_dir of Some name \<Rightarrow> cleanup name w3 | None \<Rightarrow> w3),
                        Inr eval_results)))"

section \<open>\<open>__call__\<close>\<close>

text \<open>\<open>__call__\<close> (lines 157 to 173). The cached attributes are written back only when
  \<open>add\<close> and \<open>compute_metric\<close> both return: there is no \<open>try\<close>/\<open>finally\<close>.\<close>

definition call ::
  "('g, 'd) lib \<Rightarrow> 'g lvis_detection \<Rightarrow> world \<Rightarrow> pyobj list \<Rightarrow>
   'g lvis_detection \<times> world \<times> (error + eval_results)" where
  "call L self w predictions =
     (let cache_results = results self;
          cache_lvis_api = lvis_api self;
          cache_cat_ids = cat_ids self;
          cache_img_ids = img_ids self;
          self0 = self\<lparr>results := []\<rparr>
      in case add self0 predictions of
           (self1, Inl e) \<Rightarrow> (self1, w, Inl e)
         | (self1, Inr u) \<Rightarrow>
             (case compute_metric L self1 w (results self1) of
                (self2, w2, Inl e) \<Rightarrow> (self2, w2, Inl e)
              | (self2, w2, Inr metric_result) \<Rightarrow>
                  (self2\<lparr>results := cache_results, lvis_api := cache_lvis_api,
                         cat_ids := cache_cat_ids, img_ids := cache_img_ids\<rparr>,
                   w2, Inr metric_result)))"

section \<open>Notions used to state the properties\<close>

text \<open>What the loop reads back for a metric: the content last dumped under the file name
  that \<open>result_files\<close> gives for it (\<open>None\<close> when the key is missing).\<close>

definition read_back :: "(string \<times> string \<times> string) list \<Rightarrow> string \<Rightarrow> string option option" where
  "read_back triples m =
     map_option (\<lambda>(suffix, c). map_of (rev (map snd triples)) suffix) (map_of triples m)"

definition empty_world :: world where
  "empty_world = \<lparr>files = Map.empty, tmp_dirs = [], tmp_count = 0, logs = []\<rparr>"

text \<open>The outcome of the loop, and of \<open>compute_metric\<close>, run in the empty world with the
  empty file prefix: a function of the library, the object and the results alone.\<close>

definition loop_output ::
  "('g, 'd) lib \<Rightarrow> 'g lvis_detection \<Rightarrow> (string \<times> string \<times> string) list \<Rightarrow> string list \<Rightarrow>
   error + eval_results" where
  "loop_output L self triples ms =
     snd (metric_loop L self (result_files_of [] triples) ms []
            (empty_world\<lparr>files := dump_all (dumps_of [] triples) (files empty_world)\<rparr>))"

definition metric_output ::
  "('g, 'd) lib \<Rightarrow> 'g lvis_detection \<Rightarrow> pyobj list \<Rightarrow> error + eval_results" where
  "metric_output L self rs =
     (case results2json L (lazy_init L self) rs of
        Inl e \<Rightarrow> Inl e
      | Inr triples \<Rightarrow>
          if format_only (lazy_init L self) then Inr []
          else loop_output L (lazy_init L self) triples (metrics (lazy_init L self)))"

text \<open>The items of the evaluator's results that pass the filter \<open>k in metric_items\<close>,
  in the evaluator's order.\<close>

definition selected :: "string list \<Rightarrow> (string \<times> pyfloat) list \<Rightarrow> (string \<times> pyfloat) list" where
  "selected items kvs = filter (\<lambda>(k, v). k \<in> set items) kvs"

text \<open>\<open>self._lvis_api.load_cats([catId])[0]["name"]\<close>, when it exists.\<close>

definition cat_name :: "('g, 'd) lib \<Rightarrow> 'g \<Rightarrow> int \<Rightarrow> string option" where
  "cat_name L api catId =
     (case load_cats L api [catId] of
        Inl e \<Rightarrow> None
      | Inr [] \<Rightarrow> None
      | Inr (nm # others) \<Rightarrow> map_of nm ''name'')"

text \<open>The allow-list that the bbox/segm branch filters with (lines 225 and 249 to 253).\<close>

definition items_of :: "'g lvis_detection \<Rightarrow> string list" where
  "items_of self = (case metric_items self of None \<Rightarrow> default_items | Some given \<Rightarrow> given)"

text \<open>Item names \<open>k\<close> for which the key \<open><metric>_k\<close> is also written by line 262, 286
  or 288, so that the float entry of line 261 may be overwritten.\<close>

definition reserved_item :: "string \<Rightarrow> bool" where
  "reserved_item k =
     (k = ''result'' \<or> k = ''classwise_result'' \<or> drop (length k - 10) k = ''_precision'')"

text \<open>The name and the precision that the classwise loop reports for a category.\<close>

definition name_at :: "('g, 'd) lib \<Rightarrow> 'g \<Rightarrow> int \<Rightarrow> string" where
  "name_at L api catId = (case cat_name L api catId of None \<Rightarrow> [] | Some name \<Rightarrow> name)"

definition ap_at :: "('g, 'd) lib \<Rightarrow> ndarray4 \<Rightarrow> nat \<Rightarrow> pyfloat" where
  "ap_at L precisions idx =
     (case precision_slice precisions idx of
        Inl e \<Rightarrow> NaN
      | Inr samples \<Rightarrow> category_ap L (valid_samples samples))"

section \<open>A small library and object to run the model on\<close>

text \<open>
  A stand-in for the LVIS API with two categories and two images. \<open>results2json\<close> raises
  \<open>IndexError\<close> on an empty list (it reads \<open>results[0]\<close>), makes one record per label,
  and writes them to the bbox file and, when the first result has masks, to the segm file:
  \<open>[]\<close> for no record, \<open>[...]\<close> otherwise. \<open>LVISResults\<close> raises \<open>IndexError\<close> on an
  empty result file as \<open>result_anns[0]\<close> does, and the evaluator answers with fixed
  scores, \<open>-1\<close> for the item without data.
\<close>

fun field_list :: "string \<Rightarrow> pyobj \<Rightarrow> pyobj list" where
  "field_list key (PyDict kvs) = (case map_of kvs key of Some (PyList xs) \<Rightarrow> xs | _ \<Rightarrow> [])"
| "field_list key other = []"

definition ex_encode :: "pyobj list \<Rightarrow> string" where
  "ex_encode xs = (if xs = [] then ''[]'' else ''[...]'')"

fun has_field :: "string \<Rightarrow> pyobj \<Rightarrow> bool" where
  "has_field key (PyDict kvs) = (map_of kvs key \<noteq> None)"
| "has_field key other = False"

definition ex_results2json ::
  "(int \<times> string) list lvis_detection \<Rightarrow> pyobj list \<Rightarrow> error + (string \<times> string \<times> string) list" where
  "ex_results2json self rs =
     (case rs of
        [] \<Rightarrow> Inl IndexError
      | first # others \<Rightarrow>
          (let records = ex_encode (concat (map (field_list ''labels'') rs))
           in Inr ([(''bbox'', ''.bbox.json'', records), (''proposal'', ''.bbox.json'', records)] @
                   (if has_field ''masks'' first then [(''segm'', ''.segm.json'', records)]
                    else []))))"

definition ex_LVISResults :: "(int \<times> string) list \<Rightarrow> string option \<Rightarrow> error + string" where
  "ex_LVISResults gt content =
     (case content of
        None \<Rightarrow> Inl (OtherError ''FileNotFoundError'')
      | Some c \<Rightarrow> if c = ''[]'' then Inl IndexError else Inr c)"

definition ex_precisions :: ndarray4 where
  "ex_precisions =
     \<lparr>shape = (1, 2, 2, 1),
      entry = (\<lambda>t r k a. if k = 0 then (if r = 0 then Finite 1 else Finite (1/2)) else Finite (- 1))\<rparr>"

definition ex_eval_of :: "string \<Rightarrow> int \<Rightarrow> lvis_eval" where
  "ex_eval_of iou_type max_dets =
     \<lparr>get_results =
        [(''AP'', Finite (1/2)), (''AP50'', Finite (3/4)), (''AP75'', Finite (1/2)),
         (''APs'', Finite (1/8)), (''APm'', Finite (1/2)), (''APl'', Finite (3/4)),
         (''APr'', Finite (- 1)), (''APc'', Finite (1/2)), (''APf'', Finite (129/1024)),
         (''AR@'' @ str_int max_dets, Finite (5/8)),
         (''ARs@'' @ str_int max_dets, Finite (129/1024)),
         (''ARm@'' @ str_int max_dets, Finite (3/8)),
         (''ARl@'' @ str_int max_dets, Finite (7/8))],
      eval_precision = ex_precisions,
      print_results = iou_type @ '' summary''\<rparr>"

definition ex_LVISEval ::
  "(int \<times> string) list \<Rightarrow> string \<Rightarrow> string \<Rightarrow> int list \<Rightarrow> int option \<Rightarrow> error + lvis_eval" where
  "ex_LVISEval gt dt iou_type imgIds max_dets =
     Inr (ex_eval_of iou_type (case max_dets of None \<Rightarrow> 300 | Some k \<Rightarrow> k))"

text \<open>The mean of a short array: the sum from left to right and the quotient by the
  length, each rounded to a double; infinities and NaN propagate.\<close>

fun ex_add :: "pyfloat \<Rightarrow> pyfloat \<Rightarrow> pyfloat" where
  "ex_add NaN b = NaN"
| "ex_add a NaN = NaN"
| "ex_add PosInf NegInf = NaN"
| "ex_add NegInf PosInf = NaN"
| "ex_add PosInf b = PosInf"
| "ex_add a PosInf = PosInf"
| "ex_add NegInf b = NegInf"
| "ex_add a NegInf = NegInf"
| "ex_add NegZero b = b"
| "ex_add a NegZero = a"
| "ex_add (Finite x) (Finite y) = to_double (x + y)"

fun ex_mean :: "pyfloat list \<Rightarrow> pyfloat" where
  "ex_mean [] = NaN"
| "ex_mean (x # xs) =
     (case foldl ex_add x xs of
        Finite s \<Rightarrow> to_double (s / real (length (x # xs)))
      | other \<Rightarrow> other)"

fun ex_load_cats :: "(int \<times> string) list \<Rightarrow> int list \<Rightarrow> error + (string \<times> string) list list" where
  "ex_load_cats gt [] = Inr []"
| "ex_load_cats gt (i # ids) =
     (case map_of gt i of
        None \<Rightarrow> Inl KeyError
      | Some name \<Rightarrow>
          (case ex_load_cats gt ids of
             Inl e \<Rightarrow> Inl e
           | Inr cats \<Rightarrow> Inr ([(''id'', str_int i), (''name'', name)] # cats)))"

definition ex_gt :: "(int \<times> string) list" where
  "ex_gt = [(1, ''cat''), (2, ''dog'')]"

definition ex_lib :: "((int \<times> string) list, string) lib" where
  "ex_lib =
     \<lparr>LVIS = (\<lambda>path. Inr ex_gt),
      get_cat_ids = map fst,
      get_img_ids = (\<lambda>gt. [10, 11]),
      load_cats = ex_load_cats,
      results2json = ex_results2json,
      LVISResults = ex_LVISResults,
      LVISEval = ex_LVISEval,
      np_mean = ex_mean\<rparr>"

definition ex_args :: init_args where
  "ex_args =
     \<lparr>ann_file = ''annotations/lvis_v1_val.json'', metric_arg = [''bbox''],
      classwise_arg = False, proposal_nums_arg = None, metric_items_arg = None,
      format_only_arg = False, outfile_prefix_arg = None\<rparr>"

definition ex_self :: "(int \<times> string) list lvis_detection" where
  "ex_self =
     \<lparr>results = [], lvis_api = ex_gt, cat_ids = [], img_ids = [],
      metrics = [''bbox''], metric_items = None, classwise = False,
      proposal_nums = 300, format_only = False, outfile_prefix = None\<rparr>"

definition ex_pred :: pyobj where
  "ex_pred =
     PyDict [(''img_id'', PyInt 10),
             (''bboxes'', PyList [PyList [PyInt 0, PyInt 0, PyInt 4, PyInt 4]]),
             (''scores'', PyList [PyInt 1]),
             (''labels'', PyList [PyInt 0]),
             (''masks'', PyList [PyStr ''rle'']) ]"


definition ex_acc :: "(int \<times> string) list lvis_detection" where
  "ex_acc = ex_self\<lparr>results := [ex_pred]\<rparr>"

definition ex_other :: pyobj where
  "ex_other =
     PyDict [(''img_id'', PyInt 11),
             (''bboxes'', PyList [PyList [PyInt 1, PyInt 1, PyInt 3, PyInt 3]]),
             (''scores'', PyList [PyInt 1]),
             (''labels'', PyList [PyInt 1]),
             (''masks'', PyList [PyStr ''rle''])]"

text \<open>A dict whose \<open>bboxes\<close>, \<open>scores\<close> and \<open>labels\<close> differ in length, and a
  prediction with a masks entry and no detection (no label).\<close>

definition ex_mismatch :: pyobj where
  "ex_mismatch =
     PyDict [(''img_id'', PyInt 11),
             (''bboxes'', PyList [PyList [PyInt 0, PyInt 0, PyInt 4, PyInt 4],
                                  PyList [PyInt 1, PyInt 1, PyInt 2, PyInt 2]]),
             (''scores'', PyList [PyInt 1]),
             (''labels'', PyList [])]"

definition ex_masks_only :: pyobj where
  "ex_masks_only =
     PyDict [(''img_id'', PyInt 10),
             (''bboxes'', PyList []),
             (''scores'', PyList []),
             (''labels'', PyList []),
             (''masks'', PyList [PyStr ''rle''])]"

text \<open>The result files as a run with prefix \<open>out\<close> leaves them when no prediction has a
  detection.\<close>

definition ex_files :: "string \<rightharpoonup> string" where
  "ex_files = [''out.bbox.json'' \<mapsto> ''[]'', ''out.segm.json'' \<mapsto> ''[]'']"

section \<open>Evaluation of the string functions on numerals\<close>

lemma str_nat_numeral [simp]:
  "str_nat (numeral k) =
     (if (numeral k :: nat) < 10 then [digit_char (numeral k)]
      else str_nat (numeral k div 10) @ [digit_char (numeral k mod 10)])"
  by (rule str_nat.simps)

lemma str_nat_0 [simp]: "str_nat 0 = ''0''"
  by (simp add: str_nat.simps digit_char_def)

lemma str_nat_1 [simp]: "str_nat (Suc 0) = ''1''"
  by (simp add: str_nat.simps digit_char_def)

lemma binade_numeral [simp]:
  "binade (numeral k) x e =
     (if 2 ^ 53 \<le> x then binade (pred_numeral k) (x / 2) (e + 1)
      else if x < 2 ^ 52 then binade (pred_numeral k) (x * 2) (e - 1)
      else e)"
  by (simp add: numeral_eq_Suc)

lemma decade_numeral [simp]:
  "decade (numeral k) x p =
     (if 10 \<le> x then decade (pred_numeral k) (x / 10) (p + 1)
      else if x < 1 then decade (pred_numeral k) (x * 10) (p - 1)
      else p)"
  by (simp add: numeral_eq_Suc)

lemma shortest_numeral [simp]:
  "shortest (numeral k) d x =
     (if to_double (round_sig d x) = Finite x then round_sig d x
      else shortest (pred_numeral k) (Suc d) x)"
  by (simp add: numeral_eq_Suc)

lemma frac_str_numeral [simp]:
  "frac_str (numeral k) f =
     (if f = 0 then []
      else digit_char (nat \<lfloor>f * 10\<rfloor>) #
           frac_str (pred_numeral k) (f * 10 - of_int \<lfloor>f * 10\<rfloor>))"
  by (simp add: numeral_eq_Suc)

lemma upt_0_2: "[0..<2] = [0, Suc 0]"
  by (simp add: numeral_2_eq_2)

lemmas ex_defs = upt_0_2 ex_lib_def ex_self_def ex_acc_def ex_pred_def ex_other_def
  ex_mismatch_def ex_masks_only_def ex_results2json_def ex_LVISResults_def ex_LVISEval_def
  ex_eval_of_def ex_encode_def ex_gt_def ex_precisions_def ex_args_def empty_world_def

lemmas model_defs = compute_metric_def call_def lazy_init_def TemporaryDirectory_def
  tmp_name_def osp_join_def osp_dirname_def result_files_of_def dumps_of_def log_info_def
  log_warning_def evaluate_metric_def report_detection_def report_proposal_def
  default_items_def proposal_items_def precision_slice_def valid_samples_def
  category_ap_def cleanup_def release_def str_int_def digit_char_def Let_def

lemmas float_defs = percent_def np_percent_def np_round_def py_mul_def round_half_even_def
  to_double_def scale_def round_sig_def repr_pos_def decimal_str_def exp_str_def
  py_round.simps py_str.simps digit_char_def Let_def

text \<open>The float functions at the numbers of the example.\<close>

lemma to_double_values:
  "to_double (3 / 2) = Finite (3 / 2)"
  "to_double (3 / 4) = Finite (3 / 4)"
  by (simp_all add: float_defs)

lemma percent_values:
  "py_str (py_round 2 (py_mul (Finite (1 / 2)) (Finite 100))) = ''50.0''"
  "py_str (py_round 2 (py_mul (Finite (3 / 4)) (Finite 100))) = ''75.0''"
  "py_str (py_round 2 (py_mul (Finite (1 / 8)) (Finite 100))) = ''12.5''"
  "py_str (py_round 2 (py_mul (Finite (- 1)) (Finite 100))) = ''-100.0''"
  "py_str (py_round 2 (py_mul (Finite (129 / 1024)) (Finite 100))) = ''12.6''"
  by (simp_all add: float_defs)

lemma np_percent_values:
  "np_percent (Finite (3 / 4)) = ''75.0''"
  "np_percent NaN = ''nan''"
  by (simp_all add: float_defs)

lemma py_round_values:
  "py_round 3 (Finite (5 / 8)) = Finite (5 / 8)"
  "py_round 3 (Finite (129 / 1024)) = Finite (1134907106097365 / 9007199254740992)"
  "py_round 3 (Finite (3 / 8)) = Finite (3 / 8)"
  "py_round 3 (Finite (7 / 8)) = Finite (7 / 8)"
  "py_str (Finite (1134907106097365 / 9007199254740992)) = ''0.126''"
  by (simp_all add: float_defs)

lemmas ex_values = percent_def to_double_values percent_values np_percent_values py_round_values

section \<open>\<open>add\<close> and \<open>add_predictions\<close>\<close>

lemma add_dicts:
  "list_all is_dict predictions \<Longrightarrow>
     add self predictions = (self\<lparr>results := results self @ predictions\<rparr>, Inr ())"
  by (induction predictions arbitrary: self) simp_all

lemma add_stops:
  "list_all is_dict before \<Longrightarrow> \<not> is_dict bad \<Longrightarrow>
     add self (before @ bad # after) =
       (self\<lparr>results := results self @ before\<rparr>, Inl AssertionError)"
  by (induction before arbitrary: self) simp_all

lemma snd_add:
  "snd (add self predictions) =
     (if list_all is_dict predictions then Inr () else Inl AssertionError)"
  by (induction predictions arbitrary: self) simp_all

text \<open>
  C10. When every element of \<open>predictions\<close> is a dict, \<open>add\<close> (and \<open>add_predictions\<close>,
  which only calls it) returns normally and leaves \<open>self._results\<close> equal to the prior
  list followed by the new predictions in input order; nothing else of the object changes.
\<close>

theorem add_appends_in_order:
  "list_all is_dict predictions \<Longrightarrow>
     add self predictions = (self\<lparr>results := results self @ predictions\<rparr>, Inr ()) \<and>
     add_predictions self predictions =
       (self\<lparr>results := results self @ predictions\<rparr>, Inr ())"
  by (simp add: add_predictions_def add_dicts)

theorem add_appends_in_order_witness:
  "list_all is_dict [ex_mismatch, ex_pred] \<and>
   add ex_acc [ex_mismatch, ex_pred] =
     (ex_acc\<lparr>results := [ex_pred, ex_mismatch, ex_pred]\<rparr>, Inr ()) \<and>
   add_predictions ex_acc [ex_mismatch, ex_pred] =
     (ex_acc\<lparr>results := [ex_pred, ex_mismatch, ex_pred]\<rparr>, Inr ())"
  using add_appends_in_order [of "[ex_mismatch, ex_pred]" ex_acc]
  by (simp add: ex_acc_def ex_self_def ex_pred_def ex_mismatch_def)

text \<open>
  C5, as stated, fails: a record that is not a dict is not skipped. The assertion of
  line 150 raises, and the valid record after it is never added.
\<close>

theorem add_skips_bad_record_counterexample:
  "add ex_self [ex_pred, PyInt 7, ex_mismatch] =
     (ex_self\<lparr>results := [ex_pred]\<rparr>, Inl AssertionError) \<and>
   results (fst (add ex_self [ex_pred, PyInt 7, ex_mismatch])) \<noteq> [ex_pred, ex_mismatch]"
  by (simp add: ex_self_def ex_pred_def ex_mismatch_def)

text \<open>
  C5, amended. \<open>add\<close> stops at the first record that is not a dict and raises
  \<open>AssertionError\<close>: the records before it have been appended, that record and every
  record after it have not. Every dict before it is appended whatever it holds, since
  \<open>add\<close> compares no lengths.
\<close>

theorem add_stops_at_first_non_dict:
  "list_all is_dict before \<Longrightarrow> \<not> is_dict bad \<Longrightarrow>
     add self (before @ bad # after) =
       (self\<lparr>results := results self @ before\<rparr>, Inl AssertionError) \<and>
     add_predictions self (before @ bad # after) =
       (self\<lparr>results := results self @ before\<rparr>, Inl AssertionError)"
  by (simp add: add_predictions_def add_stops)

theorem add_stops_at_first_non_dict_witness:
  "list_all is_dict [ex_mismatch] \<and> \<not> is_dict (PyList []) \<and>
   add ex_acc ([ex_mismatch] @ PyList [] # [ex_pred]) =
     (ex_acc\<lparr>results := [ex_pred, ex_mismatch]\<rparr>, Inl AssertionError) \<and>
   add_predictions ex_acc ([ex_mismatch] @ PyList [] # [ex_pred]) =
     (ex_acc\<lparr>results := [ex_pred, ex_mismatch]\<rparr>, Inl AssertionError)"
  using add_stops_at_first_non_dict [of "[ex_mismatch]" "PyList []" ex_acc "[ex_pred]"]
  by (simp add: ex_acc_def ex_self_def ex_pred_def ex_mismatch_def)

section \<open>\<open>__call__\<close> restores the object\<close>

lemma fst_compute_metric: "fst (compute_metric L self w rs) = lazy_init L self"
  by (simp add: compute_metric_def Let_def split: option.splits sum.splits prod.splits)

lemma lazy_init_results [simp]: "results (lazy_init L self) = results self"
  by (simp add: lazy_init_def Let_def)

lemma lazy_init_api [simp]: "lvis_api (lazy_init L self) = lvis_api self"
  by (simp add: lazy_init_def Let_def)

lemma lazy_init_idem: "lazy_init L (lazy_init L self) = lazy_init L self"
  by (simp add: lazy_init_def Let_def)

lemma lazy_init_set_results:
  "(lazy_init L self)\<lparr>results := rs\<rparr> = lazy_init L (self\<lparr>results := rs\<rparr>)"
  by (simp add: lazy_init_def Let_def)

lemma restore_lazy_init:
  "(lazy_init L (self\<lparr>results := ps\<rparr>))\<lparr>results := results self, lvis_api := lvis_api self,
      cat_ids := cat_ids self, img_ids := img_ids self\<rparr> = self"
  by (simp add: lazy_init_def Let_def)

lemma call_dicts:
  assumes "list_all is_dict predictions"
  shows "call L self w predictions =
     (case compute_metric L (self\<lparr>results := predictions\<rparr>) w predictions of
        (self2, w2, Inl e) \<Rightarrow> (self2, w2, Inl e)
      | (self2, w2, Inr metric_result) \<Rightarrow> (self, w2, Inr metric_result))"
proof -
  obtain self2 w2 out
    where c: "compute_metric L (self\<lparr>results := predictions\<rparr>) w predictions = (self2, w2, out)"
    by (cases "compute_metric L (self\<lparr>results := predictions\<rparr>) w predictions") auto
  have s2: "self2 = lazy_init L (self\<lparr>results := predictions\<rparr>)"
    using fst_compute_metric [of L "self\<lparr>results := predictions\<rparr>" w predictions] c by simp
  show ?thesis
    using assms c unfolding call_def
    by (cases out) (simp_all add: add_dicts Let_def s2 restore_lazy_init)
qed

lemma call_not_dicts:
  assumes "\<not> list_all is_dict predictions"
  shows "snd (snd (call L self w predictions)) = Inl AssertionError"
proof -
  obtain s1 r where a: "add (self\<lparr>results := []\<rparr>) predictions = (s1, r)"
    by (cases "add (self\<lparr>results := []\<rparr>) predictions")
  have "r = Inl AssertionError"
    using snd_add [of "self\<lparr>results := []\<rparr>" predictions] a assms by simp
  then show ?thesis using a by (simp add: call_def Let_def)
qed

text \<open>
  C1. For every object state and every sequence of prediction dicts, \<open>__call__\<close> runs
  \<open>compute_metric\<close> on an object whose result list holds exactly the passed-in
  predictions. When that returns, \<open>__call__\<close> returns its metrics together with the object
  as it was before the call: \<open>self._results\<close>, \<open>self._lvis_api\<close>, \<open>self.cat_ids\<close>,
  \<open>self.img_ids\<close> and every other attribute. When it raises, the exception leaves
  \<open>__call__\<close> too. The outcome does not depend on what had been accumulated before.
\<close>

theorem call_restores_state:
  "list_all is_dict predictions \<Longrightarrow>
     call L self w predictions =
       (case compute_metric L (self\<lparr>results := predictions\<rparr>) w predictions of
          (self2, w2, Inl e) \<Rightarrow> (self2, w2, Inl e)
        | (self2, w2, Inr metric_result) \<Rightarrow> (self, w2, Inr metric_result)) \<and>
     call L (self\<lparr>results := accumulated\<rparr>) w predictions =
       (case call L self w predictions of
          (self2, w2, Inl e) \<Rightarrow> (self2, w2, Inl e)
        | (self2, w2, Inr metric_result) \<Rightarrow>
            (self\<lparr>results := accumulated\<rparr>, w2, Inr metric_result))"
  by (simp add: call_dicts split: prod.splits sum.splits)

theorem call_restores_state_witness:
  "list_all is_dict [ex_other] \<and>
   fst (call ex_lib ex_acc empty_world [ex_other]) = ex_acc \<and>
   snd (snd (call ex_lib ex_acc empty_world [ex_other])) =
     snd (snd (compute_metric ex_lib (ex_self\<lparr>results := [ex_other]\<rparr>) empty_world [ex_other])) \<and>
   snd (snd (call ex_lib ex_acc empty_world [ex_other])) =
      Inr [(''bbox_AP'', Float (Finite (1 / 2))),
          (''bbox_AP50'', Float (Finite (3 / 4))),
          (''bbox_AP75'', Float (Finite (1 / 2))),
          (''bbox_APs'', Float (Finite (1 / 8))),
          (''bbox_APm'', Float (Finite (1 / 2))),
          (''bbox_APl'', Float (Finite (3 / 4))), (''bbox_APr'', Float (Finite (- 1))),
          (''bbox_APc'', Float (Finite (1 / 2))),
          (''bbox_APf'', Float (Finite (129 / 1024))),
          (''bbox_result'',
           Strs [''50.0'', ''75.0'', ''50.0'', ''12.5'', ''50.0'', ''75.0'',
             ''-100.0'', ''50.0'', ''12.6''])]"
  using call_restores_state [of "[ex_other]" ex_lib ex_acc empty_world]
  by (simp add: ex_defs model_defs ex_values)

section \<open>The outcome of \<open>compute_metric\<close> is a function of the object and the results\<close>

lemma files_log_info [simp]: "files (log_info w msg) = files w"
  by (simp add: log_info_def)

lemma metric_loop_reads:
  assumes "\<And>m. map_option (files w) (map_of rf m) = map_option (files w') (map_of rf' m)"
  shows "snd (metric_loop L self rf ms er w) = snd (metric_loop L self rf' ms er w')"
  using assms
proof (induction ms arbitrary: er w w')
  case Nil
  then show ?case by simp
next
  case (Cons metric rest)
  have rd: "map_option (files w) (map_of rf metric) = map_option (files w') (map_of rf' metric)"
    using Cons.prems by blast
  show ?case
  proof (cases "map_of rf metric")
    case None
    then have "map_of rf' metric = None" using rd by simp
    with None show ?thesis by (simp add: Let_def)
  next
    case (Some path)
    then obtain path' where p': "map_of rf' metric = Some path'"
      and eq: "files w path = files w' path'"
      using rd by (cases "map_of rf' metric") auto
    show ?thesis
    proof (cases "LVISResults L (lvis_api self) (files w' path')")
      case (Inl e)
      then show ?thesis using Some p' eq by (simp add: Let_def)
    next
      case (Inr lvis_dt)
      show ?thesis
      proof (cases "evaluate_metric L self metric lvis_dt er")
        case (Inl e)
        then show ?thesis using Some p' eq Inr by (simp add: Let_def)
      next
        case ev: (Inr pr)
        obtain er' printed where pr: "pr = (er', printed)" by (cases pr)
        have "snd (metric_loop L self rf rest er'
                 (log_info (log_info w (''Evaluating '' @ metric @ ''...'')) (CHR 0x0A # printed))) =
              snd (metric_loop L self rf' rest er'
                 (log_info (log_info w' (''Evaluating '' @ metric @ ''...'')) (CHR 0x0A # printed)))"
          by (rule Cons.IH) (simp add: Cons.prems)
        then show ?thesis using Some p' eq Inr ev pr by (simp add: Let_def)
      qed
    qed
  qed
qed

lemma dump_all_eq: "dump_all ds fs = fs ++ map_of (rev ds)"
proof (induction ds arbitrary: fs)
  case Nil
  then show ?case by simp
next
  case (Cons d ds)
  obtain path c where d: "d = (path, c)" by (cases d)
  have step: "fs(path \<mapsto> c) ++ map_of (rev ds) = fs ++ (map_of (rev ds @ [(path, c)]))"
    by (simp add: map_add_def fun_eq_iff split: option.splits)
  have "dump_all (d # ds) fs = dump_all ds (fs(path \<mapsto> c))"
    unfolding d by (simp add: fun_upd_def)
  also have "\<dots> = fs(path \<mapsto> c) ++ map_of (rev ds)"
    by (rule Cons.IH)
  also have "\<dots> = fs ++ map_of (rev (d # ds))"
    unfolding d by (simp only: rev.simps step)
  finally show ?case .
qed

lemma map_of_result_files:
  "map_of (result_files_of p triples) m = map_option (\<lambda>(suffix, c). p @ suffix) (map_of triples m)"
  by (induction triples) (auto simp: result_files_of_def)

lemma map_of_rev_dumps:
  "map_of (rev (dumps_of p triples)) (p @ suffix) = map_of (rev (map snd triples)) suffix"
proof (induction triples)
  case Nil
  then show ?case by (simp add: dumps_of_def)
next
  case (Cons t ts)
  obtain k s c where t: "t = (k, s, c)" by (cases t)
  show ?case using Cons t by (simp add: dumps_of_def map_add_def split: option.splits)
qed

lemma map_of_rev_snd_hit:
  assumes "map_of triples m = Some (suffix, c)"
  shows "map_of (rev (map snd triples)) suffix \<noteq> None"
proof -
  have "(m, suffix, c) \<in> set triples" using assms by (rule map_of_SomeD)
  then have "suffix \<in> fst ` set (rev (map snd triples))" by force
  then show ?thesis by (simp only: map_of_eq_None_iff not_not)
qed

lemma read_written:
  "map_option (dump_all (dumps_of p triples) fs) (map_of (result_files_of p triples) m) =
   read_back triples m"
proof (cases "map_of triples m")
  case None
  then show ?thesis by (simp add: map_of_result_files read_back_def)
next
  case (Some sc)
  obtain suffix c where sc: "sc = (suffix, c)" by (cases sc)
  have "map_of (rev (map snd triples)) suffix \<noteq> None"
    using Some sc by (auto dest: map_of_rev_snd_hit)
  then obtain c' where c': "map_of (rev (map snd triples)) suffix = Some c'" by blast
  show ?thesis
    using Some sc c'
    by (simp add: map_of_result_files read_back_def dump_all_eq map_add_def map_of_rev_dumps)
qed

lemma snd_loop_case:
  "snd (snd (case X of (w3, Inl e) \<Rightarrow> (s, w3, Inl e) | (w3, Inr er) \<Rightarrow> (s, f w3, Inr er))) = snd X"
  by (simp split: prod.splits sum.splits)

lemma loop_output_eq:
  "files v = dump_all (dumps_of p triples) fs \<Longrightarrow>
   snd (metric_loop L s (result_files_of p triples) ms [] v) = loop_output L s triples ms"
  unfolding loop_output_def
  by (rule metric_loop_reads) (simp add: read_written)

lemma compute_metric_output:
  "snd (snd (compute_metric L self w rs)) = metric_output L self rs"
proof (cases "results2json L (lazy_init L self) rs")
  case (Inl e)
  then show ?thesis
    by (simp add: compute_metric_def metric_output_def Let_def split: option.splits prod.splits)
next
  case (Inr triples)
  have loop: "snd (metric_loop L s (result_files_of p triples) ms [] v) = loop_output L s triples ms"
    if "files v = dump_all (dumps_of p triples) (files w)" for s p ms v
    using that by (rule loop_output_eq)
  show ?thesis
  proof (cases "format_only (lazy_init L self)")
    case True
    then show ?thesis using Inr
      by (simp add: compute_metric_def metric_output_def Let_def split: option.splits prod.splits)
  next
    case False
    show ?thesis
    proof (cases "outfile_prefix self")
      case None
      then show ?thesis using Inr False
        by (simp add: compute_metric_def metric_output_def Let_def TemporaryDirectory_def
              snd_loop_case loop)
    next
      case (Some given)
      then show ?thesis using Inr False
        by (simp add: compute_metric_def metric_output_def Let_def snd_loop_case loop)
    qed
  qed
qed

lemma metric_output_lazy: "metric_output L (lazy_init L self) rs = metric_output L self rs"
  unfolding metric_output_def lazy_init_idem ..

lemma compute_metric_twice:
  "snd (snd (compute_metric L (fst (compute_metric L self w rs)) w' rs)) =
   snd (snd (compute_metric L self w rs))"
  by (simp add: compute_metric_output fst_compute_metric metric_output_lazy)

lemma call_output:
  "snd (snd (call L self w ps)) =
     (if list_all is_dict ps then metric_output L (self\<lparr>results := ps\<rparr>) ps
      else Inl AssertionError)"
proof (cases "list_all is_dict ps")
  case True
  have "snd (snd (call L self w ps)) = snd (snd (compute_metric L (self\<lparr>results := ps\<rparr>) w ps))"
    by (simp add: call_dicts [OF True] split: prod.splits sum.splits)
  then show ?thesis using True by (simp add: compute_metric_output)
next
  case False
  then show ?thesis by (simp add: call_not_dicts)
qed

lemma fst_call:
  "list_all is_dict ps \<Longrightarrow>
   fst (call L self w ps) = self \<or> fst (call L self w ps) = lazy_init L (self\<lparr>results := ps\<rparr>)"
proof -
  assume d: "list_all is_dict ps"
  obtain self2 w2 out
    where c: "compute_metric L (self\<lparr>results := ps\<rparr>) w ps = (self2, w2, out)"
    by (cases "compute_metric L (self\<lparr>results := ps\<rparr>) w ps") auto
  have s2: "self2 = lazy_init L (self\<lparr>results := ps\<rparr>)"
    using fst_compute_metric [of L "self\<lparr>results := ps\<rparr>" w ps] c by simp
  show ?thesis using c s2 by (cases out) (simp_all add: call_dicts [OF d])
qed

lemma call_twice:
  "snd (snd (call L (fst (call L self w ps)) w' ps)) = snd (snd (call L self w ps))"
proof (cases "list_all is_dict ps")
  case False
  then show ?thesis by (simp add: call_output)
next
  case True
  from fst_call [OF True, of L self w]
  show ?thesis
  proof
    assume "fst (call L self w ps) = self"
    then show ?thesis by (simp add: call_output)
  next
    assume "fst (call L self w ps) = lazy_init L (self\<lparr>results := ps\<rparr>)"
    then show ?thesis
      using True by (simp add: call_output lazy_init_set_results metric_output_lazy)
  qed
qed

text \<open>
  C2. Two evaluation runs on the same input give the same outcome: a second call of
  \<open>compute_metric\<close> on the same results, in the object and the world that the first call
  left behind, yields the metrics (or the exception) of the first, and so does a second
  \<open>__call__\<close> with the same one-off predictions.
\<close>

theorem evaluation_deterministic:
  "(case compute_metric L self w rs of
      (self1, w1, out1) \<Rightarrow> snd (snd (compute_metric L self1 w1 rs)) = out1) \<and>
   (case call L self w ps of
      (self1, w1, out1) \<Rightarrow> snd (snd (call L self1 w1 ps)) = out1)"
proof -
  have "snd (snd (compute_metric L (fst (compute_metric L self w rs))
                    (fst (snd (compute_metric L self w rs))) rs)) =
        snd (snd (compute_metric L self w rs))"
    by (rule compute_metric_twice)
  moreover have "snd (snd (call L (fst (call L self w ps)) (fst (snd (call L self w ps))) ps)) =
        snd (snd (call L self w ps))"
    by (rule call_twice)
  ultimately show ?thesis by (simp add: case_prod_beta)
qed


section \<open>Format-only mode\<close>

lemma lazy_init_format_only [simp]: "format_only (lazy_init L self) = format_only self"
  by (simp add: lazy_init_def Let_def)

lemma compute_metric_format_only:
  "format_only self \<Longrightarrow>
     snd (snd (compute_metric L self w rs)) =
       (case results2json L (lazy_init L self) rs of Inl e \<Rightarrow> Inl e | Inr triples \<Rightarrow> Inr [])"
  by (simp add: compute_metric_output metric_output_def split: sum.splits)

lemma lazy_init_other_engine:
  "lazy_init (L\<lparr>LVISResults := R, LVISEval := E\<rparr>) self = lazy_init L self"
  by (simp add: lazy_init_def)

text \<open>
  C3. In format-only mode \<open>compute_metric\<close> does the conversion \<open>results2json\<close> and
  returns the empty mapping for every results list on which the conversion itself returns
  (an exception of the conversion leaves the method). No metric is computed: replacing
  \<open>LVISResults\<close> and \<open>LVISEval\<close> by anything else changes neither the returned value nor
  the object nor the world.
\<close>

theorem format_only_skips_evaluation:
  "format_only self \<Longrightarrow>
     snd (snd (compute_metric L self w rs)) =
       (case results2json L (lazy_init L self) rs of Inl e \<Rightarrow> Inl e | Inr triples \<Rightarrow> Inr []) \<and>
     compute_metric (L\<lparr>LVISResults := R, LVISEval := E\<rparr>) self w rs = compute_metric L self w rs"
proof -
  assume fo: "format_only self"
  then have fo': "format_only (lazy_init L self)" by simp
  have "compute_metric (L\<lparr>LVISResults := R, LVISEval := E\<rparr>) self w rs = compute_metric L self w rs"
    unfolding compute_metric_def lazy_init_other_engine
    using fo' by (simp add: Let_def split: option.splits prod.splits sum.splits)
  then show ?thesis using fo by (simp add: compute_metric_format_only)
qed

theorem format_only_skips_evaluation_witness:
  "format_only (ex_self\<lparr>format_only := True, outfile_prefix := Some ''work/results''\<rparr>) \<and>
   snd (snd (compute_metric ex_lib
     (ex_self\<lparr>format_only := True, outfile_prefix := Some ''work/results''\<rparr>) empty_world [ex_pred])) = Inr [] \<and>
   compute_metric (ex_lib\<lparr>LVISResults := (\<lambda>gt c. Inl RuntimeError),
                          LVISEval := (\<lambda>gt dt iou imgs k. Inl RuntimeError)\<rparr>)
     (ex_self\<lparr>format_only := True, outfile_prefix := Some ''work/results''\<rparr>) empty_world [ex_pred] =
   compute_metric ex_lib
     (ex_self\<lparr>format_only := True, outfile_prefix := Some ''work/results''\<rparr>) empty_world [ex_pred]"
  using format_only_skips_evaluation
    [where self = "ex_self\<lparr>format_only := True, outfile_prefix := Some ''work/results''\<rparr>"
       and L = ex_lib and w = empty_world and rs = "[ex_pred]"
       and R = "\<lambda>gt c. Inl RuntimeError" and E = "\<lambda>gt dt iou imgs k. Inl RuntimeError"]
  by (simp add: ex_defs lazy_init_def Let_def)

section \<open>The temporary directory\<close>










text \<open>An object built by \<open>__init__\<close> is never in format-only mode without a prefix.\<close>

lemma init_format_only_has_prefix:
  "init L HAS_LVISAPI args = Inr self \<Longrightarrow> format_only self \<Longrightarrow> outfile_prefix self \<noteq> None"
  by (auto simp: init_def super_init_refuses_def split: if_splits option.splits sum.splits)

section \<open>An empty result file ends the loop\<close>

text \<open>
  C4, amended. When \<open>LVISResults\<close> raises \<open>IndexError\<close> for a metric, a warning is
  logged and the loop over \<open>self.metrics\<close> is left: the loop returns the entries gathered
  for the metrics before it, unchanged, and the metrics configured after it are not
  evaluated, whatever they are.
\<close>

theorem empty_results_leave_the_loop:
  "map_of result_files metric = Some path \<Longrightarrow>
   LVISResults L (lvis_api self) (files w path) = Inl IndexError \<Longrightarrow>
   metric_loop L self result_files (metric # rest) eval_results w =
     (log_warning (log_info w (''Evaluating '' @ metric @ ''...''))
        ''The testing results of the whole dataset is empty.'',
      Inr eval_results)"
  by (simp add: Let_def)

theorem empty_results_leave_the_loop_witness:
  "map_of [(''bbox'', ''out.bbox.json''), (''segm'', ''out.segm.json'')] ''bbox'' = Some ''out.bbox.json'' \<and>
   LVISResults ex_lib (lvis_api ex_self) (files (empty_world\<lparr>files := ex_files\<rparr>) ''out.bbox.json'') =
     Inl IndexError \<and>
   metric_loop ex_lib ex_self [(''bbox'', ''out.bbox.json''), (''segm'', ''out.segm.json'')]
     (''bbox'' # [''segm'']) [(''proposal_done'', Strs [])] (empty_world\<lparr>files := ex_files\<rparr>) =
     (empty_world\<lparr>files := ex_files,
        logs := [Info ''Evaluating bbox...'',
                 Warning ''The testing results of the whole dataset is empty.'']\<rparr>,
      Inr [(''proposal_done'', Strs [])])"
  using empty_results_leave_the_loop
    [of "[(''bbox'', ''out.bbox.json''), (''segm'', ''out.segm.json'')]" "''bbox''" "''out.bbox.json''"
        ex_lib ex_self "empty_world\<lparr>files := ex_files\<rparr>" "[''segm'']" "[(''proposal_done'', Strs [])]"]
  by (simp add: ex_defs ex_files_def log_info_def log_warning_def)

text \<open>
  C4, as stated, fails: with metrics bbox and segm and a prediction without a detection,
  the empty bbox file ends the run. The output is empty, and segm is never taken up: after
  the warning nothing more is logged, no \<open>Evaluating segm...\<close> and no second warning.
\<close>

theorem later_metrics_still_reported_counterexample:
  "snd (snd (compute_metric ex_lib (ex_self\<lparr>metrics := [''bbox'', ''segm'']\<rparr>) empty_world [ex_masks_only])) =
     Inr [] \<and>
   logs (fst (snd (compute_metric ex_lib (ex_self\<lparr>metrics := [''bbox'', ''segm'']\<rparr>) empty_world
     [ex_masks_only]))) =
     [Info ''Evaluating bbox...'', Warning ''The testing results of the whole dataset is empty.'']"
  by (simp add: ex_defs model_defs)

section \<open>The reported entries\<close>

lemma map_of_fold_update:
  "map_of (fold (\<lambda>p. AList.update (f p) (g p)) ps er) =
     map_of er ++ map_of (rev (map (\<lambda>p. (f p, g p)) ps))"
proof (induction ps arbitrary: er)
  case Nil
  then show ?case by simp
next
  case (Cons p ps)
  show ?case
    by (simp add: Cons.IH update_conv' map_add_def fun_eq_iff split: option.splits)
qed

lemma map_of_fold_update_hit:
  assumes "distinct (map f ps)" and "p \<in> set ps"
  shows "map_of (fold (\<lambda>p. AList.update (f p) (g p)) ps er) (f p) = Some (g p)"
proof -
  let ?qs = "rev (map (\<lambda>p. (f p, g p)) ps)"
  have "map fst ?qs = rev (map f ps)" by (simp add: rev_map comp_def)
  then have "distinct (map fst ?qs)" using assms(1) by simp
  moreover have "(f p, g p) \<in> set ?qs" using assms(2) by force
  ultimately have "map_of ?qs (f p) = Some (g p)" by (rule map_of_is_SomeI)
  then show ?thesis by (simp add: map_of_fold_update map_add_def)
qed

lemma map_of_fold_update_miss:
  assumes "x \<notin> f ` set ps"
  shows "map_of (fold (\<lambda>p. AList.update (f p) (g p)) ps er) x = map_of er x"
proof -
  let ?qs = "rev (map (\<lambda>p. (f p, g p)) ps)"
  have "fst ` set ?qs = f ` set ps" by force
  then have "x \<notin> fst ` set ?qs" using assms by simp
  then have "map_of ?qs x = None" by (rule iffD2 [OF map_of_eq_None_iff])
  then show ?thesis by (simp add: map_of_fold_update map_add_def)
qed

lemma record_items_eq:
  "record_items L metric items kvs rl er =
     (rl @ map (\<lambda>p. percent (snd p)) (selected items kvs),
      fold (\<lambda>p. AList.update (metric @ ''_'' @ fst p) (Float (snd p))) (selected items kvs) er)"
  by (induction kvs arbitrary: rl er) (auto simp: selected_def)

lemma record_proposal_eq:
  "record_proposal L items kvs er =
     fold (\<lambda>p. AList.update (fst p) (Float (py_round 3 (snd p)))) (selected items kvs) er"
  by (induction kvs arbitrary: er) (auto simp: selected_def)

lemma per_category_eq:
  "per_category L api metric precisions cats rpc er = Inr (rpc', er') \<Longrightarrow>
     rpc' = rpc @ map (\<lambda>p. (name_at L api (snd p), np_percent (ap_at L precisions (fst p)))) cats \<and>
     er' = fold (\<lambda>p. AList.update (metric @ ''_'' @ name_at L api (snd p) @ ''_precision'')
                  (Float (ap_at L precisions (fst p)))) cats er \<and>
     list_all (\<lambda>p. cat_name L api (snd p) \<noteq> None \<and>
                 precision_slice precisions (fst p) \<noteq> Inl IndexError) cats"
proof (induction cats arbitrary: rpc er)
  case Nil
  then show ?case by simp
next
  case (Cons c cats)
  obtain idx catId where c: "c = (idx, catId)" by (cases c)
  from Cons.prems obtain nm others samples name where
    lc: "load_cats L api [catId] = Inr (nm # others)" and
    ps: "precision_slice precisions idx = Inr samples" and
    nm: "map_of nm ''name'' = Some name" and
    rest: "per_category L api metric precisions cats
             (rpc @ [(name, np_percent (category_ap L (valid_samples samples)))])
             (AList.update (metric @ ''_'' @ name @ ''_precision'')
                (Float (category_ap L (valid_samples samples))) er) = Inr (rpc', er')"
    by (auto simp: c Let_def split: sum.splits list.splits option.splits)
  have n: "name_at L api catId = name" "cat_name L api catId = Some name"
    using lc nm by (simp_all add: name_at_def cat_name_def)
  have a: "ap_at L precisions idx = category_ap L (valid_samples samples)"
    using ps by (simp add: ap_at_def)
  from Cons.IH [OF rest] show ?case
    by (simp add: c n a ps)
qed

lemma distinct_selected:
  "distinct (map fst kvs) \<Longrightarrow> distinct (map fst (selected items kvs))"
  by (simp add: selected_def distinct_map_filter)

lemma precision_suffix:
  "drop (length (name @ ''_precision'') - 10) (name @ ''_precision'') = ''_precision''"
  by simp

lemma not_reserved:
  assumes "\<not> reserved_item k"
  shows "k \<noteq> ''result''" and "k \<noteq> ''classwise_result''" and "k \<noteq> name @ ''_precision''"
proof -
  show "k \<noteq> ''result''" and "k \<noteq> ''classwise_result''"
    using assms by (auto simp: reserved_item_def)
  show "k \<noteq> name @ ''_precision''"
  proof
    assume "k = name @ ''_precision''"
    then have "drop (length k - 10) k = ''_precision''" by simp
    then show False using assms by (simp add: reserved_item_def)
  qed
qed

lemma precision_key_not_classwise: "name @ ''_precision'' \<noteq> ''classwise_result''"
proof
  assume "name @ ''_precision'' = ''classwise_result''"
  then have "last (name @ ''_precision'') = last ''classwise_result''" by simp
  then show False by simp
qed

lemma precision_key_not_result: "name @ ''_precision'' \<noteq> ''result''"
proof
  assume "name @ ''_precision'' = ''result''"
  then have "length (name @ ''_precision'') = length ''result''" by simp
  then show False by simp
qed

text \<open>What \<open>report_detection\<close> returns, with the loops written as folds.\<close>

lemma report_detection_plain:
  assumes "report_detection L self metric ev er = Inr out" and "\<not> classwise self"
  shows "out = AList.update (metric @ ''_result'')
                 (Strs (map (\<lambda>p. percent (snd p)) (selected (items_of self) (get_results ev))))
                 (fold (\<lambda>p. AList.update (metric @ ''_'' @ fst p) (Float (snd p)))
                    (selected (items_of self) (get_results ev)) er)"
  using assms by (simp add: report_detection_def record_items_eq items_of_def Let_def)

lemma report_detection_classwise:
  assumes "report_detection L self metric ev er = Inr out" and "classwise self"
  shows "\<exists>rpc er3.
           per_category L (lvis_api self) metric (eval_precision ev) (enumerate 0 (cat_ids self)) []
             (AList.update (metric @ ''_result'')
                 (Strs (map (\<lambda>p. percent (snd p)) (selected (items_of self) (get_results ev))))
                 (fold (\<lambda>p. AList.update (metric @ ''_'' @ fst p) (Float (snd p)))
                    (selected (items_of self) (get_results ev)) er)) = Inr (rpc, er3) \<and>
           out = AList.update (metric @ ''_classwise_result'') (Pairs rpc) er3"
  using assms
  by (auto simp: report_detection_def record_items_eq items_of_def Let_def
        split: if_splits sum.splits)


lemma inj_key: "(metric @ ''_'' @ a = metric @ ''_'' @ b) = (a = b)"
  by simp

lemma selected_keys_distinct:
  assumes "distinct (map fst kvs)"
  shows "distinct (map (\<lambda>p. metric @ ''_'' @ fst p) (selected items kvs))"
proof -
  have "distinct (map fst (selected items kvs))" using assms by (rule distinct_selected)
  then have "distinct (map (\<lambda>k. metric @ ''_'' @ k) (map fst (selected items kvs)))"
    by (simp add: distinct_map inj_on_def)
  then show ?thesis by (simp add: comp_def)
qed

lemma category_keys_miss:
  assumes "\<And>name. k \<noteq> name @ ''_precision''"
  shows "metric @ ''_'' @ k \<notin> (\<lambda>p. metric @ ''_'' @ name_at L api (snd p) @ ''_precision'') ` set cats"
  using assms by auto

lemma report_detection_entries:
  "report_detection L self metric lvis_eval eval_results = Inr out \<Longrightarrow>
     map_of out (metric @ ''_result'') =
       Some (Strs (map (\<lambda>p. percent (snd p))
                     (selected (items_of self) (get_results lvis_eval)))) \<and>
     (distinct (map fst (get_results lvis_eval)) \<longrightarrow>
      (k, v) \<in> set (selected (items_of self) (get_results lvis_eval)) \<longrightarrow>
      \<not> reserved_item k \<longrightarrow>
      map_of out (metric @ ''_'' @ k) = Some (Float v))"
proof -
  assume run: "report_detection L self metric lvis_eval eval_results = Inr out"
  let ?sel = "selected (items_of self) (get_results lvis_eval)"
  let ?strs = "Strs (map (\<lambda>p. percent (snd p)) ?sel)"
  let ?er1 = "fold (\<lambda>p. AList.update (metric @ ''_'' @ fst p) (Float (snd p))) ?sel eval_results"
  let ?er2 = "AList.update (metric @ ''_result'') ?strs ?er1"
  have result2: "map_of ?er2 (metric @ ''_result'') = Some ?strs"
    by (simp add: update_conv')
  have float2: "map_of ?er2 (metric @ ''_'' @ k) = Some (Float v)"
    if d: "distinct (map fst (get_results lvis_eval))" and m: "(k, v) \<in> set ?sel"
      and r: "\<not> reserved_item k"
  proof -
    have "map_of ?er1 ((\<lambda>p. metric @ ''_'' @ fst p) (k, v)) = Some ((\<lambda>p. Float (snd p)) (k, v))"
      using selected_keys_distinct [OF d] m by (rule map_of_fold_update_hit)
    then show ?thesis using not_reserved(1) [OF r] by (simp add: update_conv')
  qed
  show ?thesis
  proof (cases "classwise self")
    case False
    have out: "out = ?er2" using run False by (rule report_detection_plain)
    show ?thesis using result2 float2 by (simp add: out)
  next
    case True
    from report_detection_classwise [OF run True] obtain rpc er3 where
      pc: "per_category L (lvis_api self) metric (eval_precision lvis_eval)
             (enumerate 0 (cat_ids self)) [] ?er2 = Inr (rpc, er3)" and
      out: "out = AList.update (metric @ ''_classwise_result'') (Pairs rpc) er3"
      by blast
    let ?cats = "enumerate 0 (cat_ids self)"
    have er3: "er3 = fold (\<lambda>p. AList.update
                 (metric @ ''_'' @ name_at L (lvis_api self) (snd p) @ ''_precision'')
                 (Float (ap_at L (eval_precision lvis_eval) (fst p)))) ?cats ?er2"
      using per_category_eq [OF pc] by simp
    have keep: "map_of er3 (metric @ ''_'' @ x) = map_of ?er2 (metric @ ''_'' @ x)"
      if "\<And>name. x \<noteq> name @ ''_precision''" for x
      unfolding er3 by (rule map_of_fold_update_miss) (rule category_keys_miss [OF that])
    have "map_of out (metric @ ''_result'') = map_of er3 (metric @ ''_'' @ ''result'')"
      by (simp add: out update_conv')
    also have "\<dots> = map_of ?er2 (metric @ ''_'' @ ''result'')"
      by (rule keep) (simp add: precision_key_not_result [symmetric])
    finally have res: "map_of out (metric @ ''_result'') = Some ?strs"
      using result2 by simp
    have flt: "map_of out (metric @ ''_'' @ k) = Some (Float v)"
      if d: "distinct (map fst (get_results lvis_eval))" and m: "(k, v) \<in> set ?sel"
        and r: "\<not> reserved_item k"
    proof -
      have "map_of out (metric @ ''_'' @ k) = map_of er3 (metric @ ''_'' @ k)"
        using not_reserved(2) [OF r] by (simp add: out update_conv')
      also have "\<dots> = map_of ?er2 (metric @ ''_'' @ k)"
        by (rule keep) (rule not_reserved(3) [OF r])
      finally show ?thesis using float2 [OF d m r] by simp
    qed
    show ?thesis using res flt by blast
  qed
qed


text \<open>
  C6. After the bbox/segm branch has run for a metric, the mapping holds the entry
  \<open><metric>_result\<close> whose value is the list of the selected metric values, each
  multiplied by 100 (a float product), rounded to two decimals (\<open>round(_, 2)\<close>, ties to
  even) and printed as \<open>str\<close> prints a float, in the order in which the evaluator's
  results list the items; and for every selected item (of a results dict, whose keys are
  distinct) the float entry \<open><metric>_<item>\<close> with that same value, not multiplied and
  not rounded, unless the item is named like one of the keys written afterwards. This
  holds with and without classwise reporting.
\<close>

theorem detection_result_entry:
  "report_detection L self metric lvis_eval eval_results = Inr out \<Longrightarrow>
     map_of out (metric @ ''_result'') =
       Some (Strs (map (\<lambda>p. py_str (py_round 2 (py_mul (snd p) (Finite 100))))
                     (selected (items_of self) (get_results lvis_eval)))) \<and>
     (distinct (map fst (get_results lvis_eval)) \<longrightarrow>
      (k, v) \<in> set (selected (items_of self) (get_results lvis_eval)) \<longrightarrow>
      \<not> reserved_item k \<longrightarrow>
      map_of out (metric @ ''_'' @ k) = Some (Float v))"
  using report_detection_entries [of L self metric lvis_eval eval_results out k v]
  by (simp add: percent_def)

lemma slice_not_error:
  "precision_slice precisions idx \<noteq> Inl IndexError \<Longrightarrow>
     \<exists>samples. precision_slice precisions idx = Inr samples"
  by (auto simp: precision_slice_def split: prod.splits if_splits)

lemma map_snd_comp: "map (\<lambda>p. f (snd p)) ps = map f (map snd ps)"
  by (induction ps) simp_all

lemma category_keys_distinct:
  assumes d: "distinct (map (cat_name L api) ids)"
    and ok: "list_all (\<lambda>p. cat_name L api (snd p) \<noteq> None \<and> Q p) (enumerate 0 ids)"
  shows "distinct (map (\<lambda>p. metric @ ''_'' @ name_at L api (snd p) @ ''_precision'')
           (enumerate 0 ids))"
proof -
  have some: "cat_name L api c \<noteq> None" if "c \<in> set ids" for c
  proof -
    have "c \<in> snd ` set (enumerate 0 ids)"
      using that by (simp add: map_snd_enumerate flip: set_map)
    then show ?thesis using ok by (auto simp: list_all_iff)
  qed
  have "inj_on (name_at L api) (set ids)"
  proof (rule inj_onI)
    fix a b assume a: "a \<in> set ids" and b: "b \<in> set ids"
      and eq: "name_at L api a = name_at L api b"
    from some [OF a] some [OF b] eq have "cat_name L api a = cat_name L api b"
      by (auto simp: name_at_def)
    then show "a = b" using d a b by (simp add: distinct_map inj_on_def)
  qed
  moreover have "distinct ids" using d by (simp add: distinct_map)
  ultimately have "distinct (map (name_at L api) ids)" by (simp add: distinct_map)
  then have "distinct (map (\<lambda>n. metric @ ''_'' @ n @ ''_precision'') (map (name_at L api) ids))"
    by (simp add: distinct_map inj_on_def)
  then have "distinct (map (\<lambda>c. metric @ ''_'' @ name_at L api c @ ''_precision'') ids)"
    by (simp add: comp_def)
  moreover have "map (\<lambda>p. metric @ ''_'' @ name_at L api (snd p) @ ''_precision'') (enumerate 0 ids) =
        map (\<lambda>c. metric @ ''_'' @ name_at L api c @ ''_precision'') ids"
    using map_snd_comp [of "\<lambda>c. metric @ ''_'' @ name_at L api c @ ''_precision''" "enumerate 0 ids"]
    by (simp only: map_snd_enumerate)
  ultimately show ?thesis by simp
qed

text \<open>
  C7. In classwise reporting, for every category (position \<open>idx\<close> of \<open>self.cat_ids\<close>)
  the reported precision \<open>ap\<close> is computed from the entries greater than \<open>-1\<close> of the
  slice \<open>precisions[:, :, idx, 0]\<close>: it is their mean when there is at least one, and
  not-a-number, which is not zero, when there is none. It is listed, formatted, at position
  \<open>idx\<close> of \<open><metric>_classwise_result\<close>, and stored under
  \<open><metric>_<name>_precision\<close> (the entry of that key when no two categories share a name).
\<close>

theorem classwise_category_precision:
  "report_detection L self metric lvis_eval eval_results = Inr out \<Longrightarrow>
   classwise self \<Longrightarrow> idx < length (cat_ids self) \<Longrightarrow>
     \<exists>name samples ap rpc.
        cat_name L (lvis_api self) (cat_ids self ! idx) = Some name \<and>
        precision_slice (eval_precision lvis_eval) idx = Inr samples \<and>
        (valid_samples samples \<noteq> [] \<longrightarrow> ap = np_mean L (valid_samples samples)) \<and>
        (valid_samples samples = [] \<longrightarrow> ap = NaN \<and> ap \<noteq> Finite 0) \<and>
        map_of out (metric @ ''_classwise_result'') = Some (Pairs rpc) \<and>
        length rpc = length (cat_ids self) \<and>
        rpc ! idx = (name, np_percent ap) \<and>
        (distinct (map (cat_name L (lvis_api self)) (cat_ids self)) \<longrightarrow>
           map_of out (metric @ ''_'' @ name @ ''_precision'') = Some (Float ap))"
proof -
  assume run: "report_detection L self metric lvis_eval eval_results = Inr out"
    and cw: "classwise self" and idx: "idx < length (cat_ids self)"
  let ?api = "lvis_api self" and ?P = "eval_precision lvis_eval"
  let ?cats = "enumerate 0 (cat_ids self)"
  let ?key = "\<lambda>p. metric @ ''_'' @ name_at L ?api (snd p) @ ''_precision''"
  let ?val = "\<lambda>p. Float (ap_at L ?P (fst p))"
  from report_detection_classwise [OF run cw] obtain rpc er3 er2 where
    pc: "per_category L ?api metric ?P ?cats [] er2 = Inr (rpc, er3)" and
    out: "out = AList.update (metric @ ''_classwise_result'') (Pairs rpc) er3"
    by blast
  from per_category_eq [OF pc] have
    rpc: "rpc = map (\<lambda>p. (name_at L ?api (snd p), np_percent (ap_at L ?P (fst p)))) ?cats" and
    er3: "er3 = fold (\<lambda>p. AList.update (?key p) (?val p)) ?cats er2" and
    ok: "list_all (\<lambda>p. cat_name L ?api (snd p) \<noteq> None \<and>
                     precision_slice ?P (fst p) \<noteq> Inl IndexError) ?cats"
    by simp_all
  have mem: "(idx, cat_ids self ! idx) \<in> set ?cats"
    using idx by (metis add_0 length_enumerate nth_enumerate_eq nth_mem)
  from ok mem have "cat_name L ?api (cat_ids self ! idx) \<noteq> None"
    and "precision_slice ?P idx \<noteq> Inl IndexError"
    by (auto simp: list_all_iff)
  then obtain name samples where
    name: "cat_name L ?api (cat_ids self ! idx) = Some name" and
    samples: "precision_slice ?P idx = Inr samples"
    using slice_not_error by blast
  let ?ap = "ap_at L ?P idx"
  have ap: "?ap = category_ap L (valid_samples samples)"
    using samples by (simp add: ap_at_def)
  have nm: "name_at L ?api (cat_ids self ! idx) = name"
    using name by (simp add: name_at_def)
  have nth: "rpc ! idx = (name, np_percent ?ap)"
    using idx by (simp add: rpc nth_enumerate_eq nm)
  have len: "length rpc = length (cat_ids self)" by (simp add: rpc)
  have cwr: "map_of out (metric @ ''_classwise_result'') = Some (Pairs rpc)"
    by (simp add: out update_conv')
  have entry: "map_of out (metric @ ''_'' @ name @ ''_precision'') = Some (Float ?ap)"
    if d: "distinct (map (cat_name L ?api) (cat_ids self))"
  proof -
    have "distinct (map ?key ?cats)" using d ok by (rule category_keys_distinct)
    then have "map_of er3 (?key (idx, cat_ids self ! idx)) = Some (?val (idx, cat_ids self ! idx))"
      unfolding er3 using mem by (rule map_of_fold_update_hit)
    then have "map_of er3 (metric @ ''_'' @ name @ ''_precision'') = Some (Float ?ap)"
      by (simp add: nm)
    then show ?thesis by (simp add: out update_conv' precision_key_not_classwise)
  qed
  have "(valid_samples samples \<noteq> [] \<longrightarrow> ?ap = np_mean L (valid_samples samples)) \<and>
        (valid_samples samples = [] \<longrightarrow> ?ap = NaN \<and> ?ap \<noteq> Finite 0)"
    by (simp add: ap category_ap_def)
  then show ?thesis using name samples cwr len nth entry by blast
qed

text \<open>
  C8. An object that the constructor returns has \<open>proposal_nums\<close> 300 when the
  constructor is not given one, the given number otherwise. For the proposal metric the
  evaluator runs with \<open>params.max_dets = self.proposal_nums\<close> (and \<open>iou_type\<close> bbox).
  Without an allow-list the entries written are exactly those of the items \<open>AR@K\<close>,
  \<open>ARs@K\<close>, \<open>ARm@K\<close>, \<open>ARl@K\<close>, \<open>K = proposal_nums\<close>, that the evaluator's results
  hold, each with its value rounded to three decimals, ties to even
  (\<open>float(f'{float(v):.3f}')\<close>); every other key of the mapping is left as it was.
\<close>

theorem proposal_reporting:
  "(init L HAS_LVISAPI args = Inr obj \<longrightarrow>
      proposal_nums obj = (case proposal_nums_arg args of None \<Rightarrow> 300 | Some n \<Rightarrow> n)) \<and>
   evaluate_metric L self ''proposal'' lvis_dt eval_results =
     (case LVISEval L (lvis_api self) lvis_dt ''bbox'' (img_ids self) (Some (proposal_nums self)) of
        Inl e \<Rightarrow> Inl e
      | Inr lvis_eval \<Rightarrow>
          Inr (report_proposal L self lvis_eval eval_results, print_results lvis_eval)) \<and>
   (metric_items self = None \<longrightarrow> distinct (map fst (get_results lvis_eval)) \<longrightarrow>
      map_of (report_proposal L self lvis_eval eval_results) k =
        (if k \<in> {''AR@'' @ str_int (proposal_nums self), ''ARs@'' @ str_int (proposal_nums self),
                  ''ARm@'' @ str_int (proposal_nums self), ''ARl@'' @ str_int (proposal_nums self)}
         then (case map_of (get_results lvis_eval) k of
                 None \<Rightarrow> map_of eval_results k
               | Some v \<Rightarrow> Some (Float (py_round 3 v)))
         else map_of eval_results k))"
proof -
  let ?items = "proposal_items (proposal_nums self)"
  let ?sel = "selected ?items (get_results lvis_eval)"
  have rp: "report_proposal L self lvis_eval eval_results =
              fold (\<lambda>p. AList.update (fst p) (Float (py_round 3 (snd p)))) ?sel eval_results"
    if "metric_items self = None"
    using that by (simp add: report_proposal_def record_proposal_eq)
  have third: "map_of (report_proposal L self lvis_eval eval_results) k =
        (if k \<in> set ?items
         then (case map_of (get_results lvis_eval) k of
                 None \<Rightarrow> map_of eval_results k
               | Some v \<Rightarrow> Some (Float (py_round 3 v)))
         else map_of eval_results k)"
    if none: "metric_items self = None" and d: "distinct (map fst (get_results lvis_eval))"
  proof (cases "k \<in> set ?items \<and> map_of (get_results lvis_eval) k \<noteq> None")
    case True
    then obtain v where v: "map_of (get_results lvis_eval) k = Some v" by blast
    then have "(k, v) \<in> set (get_results lvis_eval)" by (rule map_of_SomeD)
    then have mem: "(k, v) \<in> set ?sel" using True by (simp add: selected_def)
    have "distinct (map fst ?sel)" using d by (rule distinct_selected)
    then have "map_of (fold (\<lambda>p. AList.update (fst p) (Float (py_round 3 (snd p)))) ?sel eval_results)
                 (fst (k, v)) = Some (Float (py_round 3 (snd (k, v))))"
      using mem by (rule map_of_fold_update_hit)
    then show ?thesis using True v by (simp add: rp [OF none])
  next
    case False
    have "k \<notin> fst ` set ?sel"
    proof
      assume "k \<in> fst ` set ?sel"
      then obtain v where "(k, v) \<in> set ?sel" by force
      then have it: "k \<in> set ?items" and kv: "(k, v) \<in> set (get_results lvis_eval)"
        by (simp_all add: selected_def)
      from kv have "k \<in> fst ` set (get_results lvis_eval)" by force
      then have "map_of (get_results lvis_eval) k \<noteq> None" by (simp add: map_of_eq_None_iff)
      then show False using False it by simp
    qed
    then have "map_of (fold (\<lambda>p. AList.update (fst p) (Float (py_round 3 (snd p)))) ?sel eval_results) k
                 = map_of eval_results k"
      by (rule map_of_fold_update_miss)
    then show ?thesis using False by (auto simp: rp [OF none])
  qed
  have first: "proposal_nums obj = (case proposal_nums_arg args of None \<Rightarrow> 300 | Some n \<Rightarrow> n)"
    if "init L HAS_LVISAPI args = Inr obj"
    using that by (auto simp: init_def split: if_splits option.splits sum.splits)
  show ?thesis
    using first third by (simp add: evaluate_metric_def proposal_items_def Let_def)
qed


theorem detection_result_entry_witness:
  "report_detection ex_lib (ex_self\<lparr>classwise := True, cat_ids := [1, 2]\<rparr>) ''bbox''
     (ex_eval_of ''bbox'' 300) [] =
     Inr [(''bbox_AP'', Float (Finite (1 / 2))), (''bbox_AP50'', Float (Finite (3 / 4))),
          (''bbox_AP75'', Float (Finite (1 / 2))), (''bbox_APs'', Float (Finite (1 / 8))),
          (''bbox_APm'', Float (Finite (1 / 2))), (''bbox_APl'', Float (Finite (3 / 4))),
          (''bbox_APr'', Float (Finite (- 1))), (''bbox_APc'', Float (Finite (1 / 2))),
          (''bbox_APf'', Float (Finite (129 / 1024))),
          (''bbox_result'',
           Strs [''50.0'', ''75.0'', ''50.0'', ''12.5'', ''50.0'', ''75.0'', ''-100.0'', ''50.0'',
                 ''12.6'']),
          (''bbox_cat_precision'', Float (Finite (3 / 4))),
          (''bbox_dog_precision'', Float NaN),
          (''bbox_classwise_result'', Pairs [(''cat'', ''75.0''), (''dog'', ''nan'')])] \<and>
   distinct (map fst (get_results (ex_eval_of ''bbox'' 300))) \<and>
   (''APf'', Finite (129 / 1024)) \<in>
     set (selected (items_of (ex_self\<lparr>classwise := True, cat_ids := [1, 2]\<rparr>))
        (get_results (ex_eval_of ''bbox'' 300))) \<and>
   \<not> reserved_item ''APf'' \<and>
   map (\<lambda>p. py_str (py_round 2 (py_mul (snd p) (Finite 100))))
     (selected (items_of (ex_self\<lparr>classwise := True, cat_ids := [1, 2]\<rparr>))
        (get_results (ex_eval_of ''bbox'' 300))) =
     [''50.0'', ''75.0'', ''50.0'', ''12.5'', ''50.0'', ''75.0'', ''-100.0'', ''50.0'', ''12.6'']"
  using detection_result_entry
    [where L = ex_lib and self = "ex_self\<lparr>classwise := True, cat_ids := [1, 2]\<rparr>"
       and metric = "''bbox''" and lvis_eval = "ex_eval_of ''bbox'' 300" and eval_results = "[]"
       and k = "''APf''" and v = "Finite (129 / 1024)"]
  by (simp add: ex_defs model_defs ex_values items_of_def selected_def reserved_item_def)

theorem classwise_category_precision_witness:
  "report_detection ex_lib (ex_self\<lparr>classwise := True, cat_ids := [1, 2]\<rparr>) ''segm''
     (ex_eval_of ''segm'' 300) [] \<noteq> Inl AssertionError \<and>
   classwise (ex_self\<lparr>classwise := True, cat_ids := [1, 2]\<rparr>) \<and>
   (1 :: nat) < length (cat_ids (ex_self\<lparr>classwise := True, cat_ids := [1, 2]\<rparr>)) \<and>
   distinct (map (cat_name ex_lib ex_gt) [1, 2]) \<and>
   cat_name ex_lib ex_gt 2 = Some ''dog'' \<and>
   precision_slice ex_precisions 1 = Inr [Finite (- 1), Finite (- 1)] \<and>
   valid_samples [Finite (- 1), Finite (- 1)] = [] \<and>
   map_of (projr (report_detection ex_lib (ex_self\<lparr>classwise := True, cat_ids := [1, 2]\<rparr>) ''segm''
     (ex_eval_of ''segm'' 300) [])) ''segm_dog_precision'' = Some (Float NaN) \<and>
   map_of (projr (report_detection ex_lib (ex_self\<lparr>classwise := True, cat_ids := [1, 2]\<rparr>) ''segm''
     (ex_eval_of ''segm'' 300) [])) ''segm_cat_precision'' = Some (Float (Finite (3 / 4))) \<and>
   map_of (projr (report_detection ex_lib (ex_self\<lparr>classwise := True, cat_ids := [1, 2]\<rparr>) ''segm''
     (ex_eval_of ''segm'' 300) [])) ''segm_classwise_result'' =
     Some (Pairs [(''cat'', ''75.0''), (''dog'', ''nan'')])"
  using classwise_category_precision
    [where L = ex_lib and self = "ex_self\<lparr>classwise := True, cat_ids := [1, 2]\<rparr>"
       and metric = "''segm''" and lvis_eval = "ex_eval_of ''segm'' 300" and eval_results = "[]"
       and idx = 1
       and out = "projr (report_detection ex_lib (ex_self\<lparr>classwise := True, cat_ids := [1, 2]\<rparr>)
                    ''segm'' (ex_eval_of ''segm'' 300) [])"]
  by (simp add: ex_defs model_defs ex_values items_of_def selected_def cat_name_def)

theorem proposal_reporting_witness:
  "metric_items ex_self = None \<and>
   distinct (map fst (get_results (ex_eval_of ''bbox'' 300))) \<and>
   init ex_lib True ex_args = Inr ex_self \<and>
   proposal_nums_arg ex_args = None \<and>
   proposal_nums ex_self = 300 \<and>
   evaluate_metric ex_lib ex_self ''proposal'' ''[...]'' [] =
     Inr ([(''AR@300'', Float (Finite (5 / 8))),
           (''ARs@300'', Float (Finite (1134907106097365 / 9007199254740992))),
           (''ARm@300'', Float (Finite (3 / 8))), (''ARl@300'', Float (Finite (7 / 8)))],
          ''bbox summary'') \<and>
   py_str (Finite (1134907106097365 / 9007199254740992)) = ''0.126'' \<and>
   map_of (report_proposal ex_lib ex_self (ex_eval_of ''bbox'' 300) []) ''ARs@300'' =
     Some (Float (Finite (1134907106097365 / 9007199254740992))) \<and>
   map_of (report_proposal ex_lib ex_self (ex_eval_of ''bbox'' 300) []) ''AP'' = None"
  using proposal_reporting
    [where L = ex_lib and self = ex_self and HAS_LVISAPI = True and args = ex_args
       and obj = ex_self and lvis_dt = "''[...]''"
       and eval_results = "[]" and lvis_eval = "ex_eval_of ''bbox'' 300" and k = "''ARs@300''"]
  by (simp add: ex_defs model_defs ex_values init_def super_init_refuses_def)

end
